theory Spec2Isabelle
  imports Complex_Main "HOL-Library.AList"
begin

section \<open>The trading simulator of \<^verbatim>\<open>simulator.py\<close> and \<^verbatim>\<open>models.py\<close>\<close>

text \<open>
  The development embeds the execution engine (class \<^verbatim>\<open>Simulator\<close>) and its value
  objects (\<^verbatim>\<open>Order\<close>, \<^verbatim>\<open>Position\<close>, \<^verbatim>\<open>TradeLog\<close>).

  Conventions of the embedding.
  \<^item> Python floats are real numbers, without rounding and without overflow, together with
    the special values a division by zero brings in. A close read from the market data is a
    number or numpy's \<^verbatim>\<open>nan\<close> (type \<open>npfloat\<close>); \<^verbatim>\<open>place_order\<close> and
    \<^verbatim>\<open>mark_to_market\<close> test for \<^verbatim>\<open>nan\<close> before any arithmetic, so prices, fill prices, costs
    and cash are numbers, as are the configured starting cash, slippage and loss limit. An
    entry price and everything computed from it (realised and unrealised PnL, equity) is a
    \<open>float64\<close>: a number, an infinity or \<^verbatim>\<open>nan\<close>.
  \<^item> Where an int meets a float, Python converts the int to a double, and raises
    \<^verbatim>\<open>OverflowError\<close> when it is beyond the double range. The averaging of lines 142 and 159
    is where this raise comes after the engine has been changed, and the model has it there
    (\<open>to_float\<close>); in the other mixed products (lines 104, 148, 164 and \<^verbatim>\<open>update_pnl\<close>)
    quantities are taken to be within the double range.
  \<^item> Python ints are \<open>int\<close>; a bar index may be negative, and indexing follows Python.
  \<^item> Timestamps are integers (minutes); only their order matters.
  \<^item> A method of the engine takes the engine state and returns its result (or the exception
    raised) together with the state it leaves behind.
  \<^item> The open-position dictionary is an association list in insertion order, as a Python
    \<^verbatim>\<open>dict\<close> iterates; its keys are distinct.
  \<^item> Logging (\<^verbatim>\<open>_log\<close>, the \<^verbatim>\<open>debug\<close> flag) prints only and is left out, as are the
    loader's contract table and the reference to the loader itself.
\<close>

subsection \<open>Data model (\<^verbatim>\<open>models.py\<close>)\<close>

datatype npfloat = NaN | Num real

text \<open>
  Computed floats. The arithmetic is IEEE 754 without rounding and overflow: \<^verbatim>\<open>nan\<close> spreads,
  opposite infinities add to \<^verbatim>\<open>nan\<close>, zero times an infinity is \<^verbatim>\<open>nan\<close>, a number divided by
  zero is an infinity of its sign and zero divided by zero is \<^verbatim>\<open>nan\<close> (numpy warns and
  does not raise), and a comparison with \<^verbatim>\<open>nan\<close> is false. A zero divisor is the positive
  zero an int converts to; the sign of a zero result is not kept. Division is the class
  operation \<open>div\<close>, written \<open>/\<close> below.
\<close>

datatype float64 = Fin real | PosInf | NegInf | NotANumber

instantiation float64 :: "{comm_monoid_add, uminus, minus, times, inverse, ord}"
begin

definition zero_float64 :: float64 where
  "0 = Fin 0"

fun plus_float64 :: "float64 \<Rightarrow> float64 \<Rightarrow> float64" where
  "Fin a + Fin b = Fin (a + b)"
| "NotANumber + _ = NotANumber"
| "_ + NotANumber = NotANumber"
| "PosInf + NegInf = NotANumber"
| "NegInf + PosInf = NotANumber"
| "PosInf + _ = PosInf"
| "_ + PosInf = PosInf"
| "NegInf + _ = NegInf"
| "_ + NegInf = NegInf"

fun uminus_float64 :: "float64 \<Rightarrow> float64" where
  "- Fin a = Fin (- a)"
| "- PosInf = NegInf"
| "- NegInf = PosInf"
| "- NotANumber = NotANumber"

definition minus_float64 :: "float64 \<Rightarrow> float64 \<Rightarrow> float64" where
  "a - b = a + (- b)" for a b :: float64

fun times_float64 :: "float64 \<Rightarrow> float64 \<Rightarrow> float64" where
  "Fin a * Fin b = Fin (a * b)"
| "NotANumber * _ = NotANumber"
| "_ * NotANumber = NotANumber"
| "PosInf * Fin b = (if 0 < b then PosInf else if b < 0 then NegInf else NotANumber)"
| "NegInf * Fin b = (if 0 < b then NegInf else if b < 0 then PosInf else NotANumber)"
| "Fin a * PosInf = (if 0 < a then PosInf else if a < 0 then NegInf else NotANumber)"
| "Fin a * NegInf = (if 0 < a then NegInf else if a < 0 then PosInf else NotANumber)"
| "PosInf * PosInf = PosInf"
| "PosInf * NegInf = NegInf"
| "NegInf * PosInf = NegInf"
| "NegInf * NegInf = PosInf"

fun divide_float64 :: "float64 \<Rightarrow> float64 \<Rightarrow> float64" where
  "Fin a div Fin b =
     (if b \<noteq> 0 then Fin (a / b)
      else if 0 < a then PosInf else if a < 0 then NegInf else NotANumber)"
| "NotANumber div _ = NotANumber"
| "_ div NotANumber = NotANumber"
| "PosInf div Fin b = (if 0 \<le> b then PosInf else NegInf)"
| "NegInf div Fin b = (if 0 \<le> b then NegInf else PosInf)"
| "Fin a div PosInf = Fin 0"
| "Fin a div NegInf = Fin 0"
| "PosInf div PosInf = NotANumber"
| "PosInf div NegInf = NotANumber"
| "NegInf div PosInf = NotANumber"
| "NegInf div NegInf = NotANumber"

definition inverse_float64 :: "float64 \<Rightarrow> float64" where
  "inverse a = Fin 1 div a" for a :: float64

fun less_eq_float64 :: "float64 \<Rightarrow> float64 \<Rightarrow> bool" where
  "Fin a \<le> Fin b \<longleftrightarrow> a \<le> b"
| "NotANumber \<le> _ \<longleftrightarrow> False"
| "_ \<le> NotANumber \<longleftrightarrow> False"
| "NegInf \<le> _ \<longleftrightarrow> True"
| "_ \<le> PosInf \<longleftrightarrow> True"
| "PosInf \<le> _ \<longleftrightarrow> False"
| "_ \<le> NegInf \<longleftrightarrow> False"

definition less_float64 :: "float64 \<Rightarrow> float64 \<Rightarrow> bool" where
  "a < b \<longleftrightarrow> a \<le> b \<and> \<not> b \<le> a" for a b :: float64

instance
proof
  fix x y z :: float64
  show "x + y = y + x"
    by (cases x; cases y; simp)
  show "0 + x = x"
    unfolding zero_float64_def by (cases x; simp)
  show "x + y + z = x + (y + z)"
    by (cases x; cases y; cases z; simp)
qed

end

text \<open>
  The conversion of a Python int to a double, as a mixed operation makes it. From
  \<open>2^1024 - 2^970\<close> on, the int rounds beyond the largest double and the conversion raises
  \<^verbatim>\<open>OverflowError\<close>.
\<close>

datatype error =
    KeyError
  | IndexError
  | ValueError_side
  | ValueError_no_price
  | OverflowError
  | RuntimeError
  | TypeError

definition double_limit :: int where
  "double_limit = 2 ^ 1024 - 2 ^ 970"

definition to_float :: "int \<Rightarrow> error + real" where
  "to_float n = (if double_limit \<le> \<bar>n\<bar> then Inl OverflowError else Inr (of_int n))"

datatype pos_side = LONG | SHORT

record Order =
  order_id :: int
  token :: int
  symbol :: string
  side :: string
  quantity :: int
  price :: real
  executed_price :: "real option"
  timestamp :: int
  filled_time :: "int option"
  status :: string
  order_type :: string

record Position =
  token :: int
  symbol :: string
  side :: pos_side
  quantity :: int
  entry_price :: float64
  entry_time :: int
  stop_loss :: "real option"
  target :: "real option"
  exit_price :: "real option"
  exit_time :: "int option"
  realised_pnl :: float64
  margin_required :: real

record TradeLog =
  instrument :: string
  side :: pos_side
  entry_time :: int
  exit_time :: int
  entry_price :: float64
  exit_price :: "real option"
  quantity :: int
  pnl :: float64

text \<open>
  \<^verbatim>\<open>Position.update_pnl\<close> is a method of a mutable object: it returns its value and the
  object as the call leaves it.
\<close>

definition update_pnl :: "Position \<Rightarrow> real \<Rightarrow> float64 \<times> Position" where
  "update_pnl self current_price =
     (if Position.side self = LONG
      then ((Fin current_price - Position.entry_price self)
              * Fin (of_int (Position.quantity self)), self)
      else ((Position.entry_price self - Fin current_price)
              * Fin (of_int (Position.quantity self)), self))"

definition is_open :: "Position \<Rightarrow> bool" where
  "is_open self = (Position.exit_time self = None)"

subsection \<open>Engine state (\<^verbatim>\<open>Simulator.__init__\<close>, \<^verbatim>\<open>set_time_index\<close>)\<close>

text \<open>
  A frame is the \<^verbatim>\<open>Close\<close> column of one token's DataFrame: rows of (minute label, close),
  in index order. The loader builds every frame with \<^verbatim>\<open>sort_index()\<close>, so labels ascend.
\<close>

type_synonym frame = "(int \<times> npfloat) list"

record Simulator =
  market_data :: "int \<rightharpoonup> frame"
  starting_cash :: real
  cash :: real
  slippage :: real
  max_daily_loss :: "real option"
  order_id_counter :: int
  orders :: "Order list"
  positions :: "(int \<times> Position) list"
  trade_log :: "TradeLog list"
  time_index :: "int list option"
  current_index :: "int option"

definition init :: "(int \<rightharpoonup> frame) \<Rightarrow> real \<Rightarrow> real \<Rightarrow> real option \<Rightarrow> Simulator" where
  "init data_by_token starting_cash' slippage' max_daily_loss' =
     \<lparr>market_data = data_by_token,
      starting_cash = starting_cash',
      cash = starting_cash',
      slippage = slippage',
      max_daily_loss = max_daily_loss',
      order_id_counter = 1,
      orders = [],
      positions = [],
      trade_log = [],
      time_index = None,
      current_index = None\<rparr>"

definition set_time_index :: "Simulator \<Rightarrow> int list \<Rightarrow> Simulator" where
  "set_time_index self index = self\<lparr>time_index := Some index, current_index := Some 0\<rparr>"

subsection \<open>Market data API (\<^verbatim>\<open>get_market_price\<close>)\<close>

text \<open>
  \<^verbatim>\<open>index[i]\<close> on a pandas Index: a negative \<open>i\<close> counts from the end, anything out of
  range raises \<^verbatim>\<open>IndexError\<close>.
\<close>

definition index_get :: "int list \<Rightarrow> int \<Rightarrow> error + int" where
  "index_get idx i =
     (let n = int (length idx); j = (if i < 0 then n + i else i)
      in if 0 \<le> j \<and> j < n then Inr (idx ! nat j) else Inl IndexError)"

text \<open>
  \<^verbatim>\<open>df.loc[:ts]\<close> on an ascending index keeps the rows whose label is at most \<open>ts\<close>.
\<close>

definition loc_upto :: "frame \<Rightarrow> int \<Rightarrow> frame" where
  "loc_upto df ts = filter (\<lambda>row. fst row \<le> ts) df"

text \<open>
  \<^verbatim>\<open>df.loc[:ts]["Close"].iloc[-1]\<close> inside \<^verbatim>\<open>try\<close>: the last kept close; an empty
  selection raises inside the \<^verbatim>\<open>try\<close> and the handler yields \<^verbatim>\<open>nan\<close>.
\<close>

definition last_close :: "frame \<Rightarrow> int \<Rightarrow> npfloat" where
  "last_close df ts = (case loc_upto df ts of [] \<Rightarrow> NaN | r # rs \<Rightarrow> snd (last (r # rs)))"

definition get_market_price :: "Simulator \<Rightarrow> int \<Rightarrow> int \<Rightarrow> error + npfloat" where
  "get_market_price self tok dt_index =
     (case market_data self tok of
        None \<Rightarrow> Inl KeyError
      | Some df \<Rightarrow>
          (case time_index self of
             None \<Rightarrow> Inl IndexError
           | Some idx \<Rightarrow>
               if dt_index \<ge> int (length idx) then Inl IndexError
               else (case index_get idx dt_index of
                       Inl e \<Rightarrow> Inl e
                     | Inr ts \<Rightarrow> Inr (last_close df ts))))"

text \<open>
  The expression \<^verbatim>\<open>self.time_index[dt_index]\<close> where it stands unguarded: subscripting
  \<^verbatim>\<open>None\<close> is a \<^verbatim>\<open>TypeError\<close>.
\<close>

definition bar_time :: "Simulator \<Rightarrow> int \<Rightarrow> error + int" where
  "bar_time self dt_index =
     (case time_index self of
        None \<Rightarrow> Inl TypeError
      | Some idx \<Rightarrow> index_get idx dt_index)"

subsection \<open>Order API (\<^verbatim>\<open>place_order\<close>, \<^verbatim>\<open>_record_trade\<close>)\<close>

text \<open>
  \<^verbatim>\<open>str.upper\<close> on ASCII text: the letters a to z become A to Z, every other character
  stays. Side strings are ASCII here; what Python does to letters beyond ASCII is not
  modelled.
\<close>

definition upper_char :: "char \<Rightarrow> char" where
  "upper_char c =
     (case map_of (zip ''abcdefghijklmnopqrstuvwxyz'' ''ABCDEFGHIJKLMNOPQRSTUVWXYZ'') c of
        None \<Rightarrow> c
      | Some u \<Rightarrow> u)"

definition upper :: "string \<Rightarrow> string" where
  "upper s = map upper_char s"

definition record_trade :: "Simulator \<Rightarrow> Position \<Rightarrow> Simulator" where
  "record_trade self pos =
     (case Position.exit_time pos of
        None \<Rightarrow> self
      | Some t \<Rightarrow>
          self\<lparr>trade_log := trade_log self @
            [\<lparr>instrument = Position.symbol pos,
              side = Position.side pos,
              entry_time = Position.entry_time pos,
              exit_time = t,
              entry_price = Position.entry_price pos,
              exit_price = Position.exit_price pos,
              quantity = Position.quantity pos,
              pnl = Position.realised_pnl pos\<rparr>]\<rparr>)"

text \<open>
  An opposite-direction fill (lines 147--154 and 163--170): the position object is changed
  in place; when its quantity is zero it is stamped, logged and deleted from the dictionary.
  \<open>pnl\<close> is the realised amount of this fill, computed by the caller from the entry price.
\<close>

definition reduce_position ::
    "Simulator \<Rightarrow> int \<Rightarrow> Position \<Rightarrow> int \<Rightarrow> float64 \<Rightarrow> real \<Rightarrow> int \<Rightarrow> Simulator" where
  "reduce_position self tok pos qty pnl' fill_price ts =
     (let pos1 = pos\<lparr>Position.quantity := Position.quantity pos - qty,
                     realised_pnl := realised_pnl pos + pnl'\<rparr>
      in if Position.quantity pos1 = 0
         then (let pos2 = pos1\<lparr>Position.exit_price := Some fill_price,
                                Position.exit_time := Some ts\<rparr>;
                   self1 = record_trade (self\<lparr>positions := AList.update tok pos2 (positions self)\<rparr>) pos2
               in self1\<lparr>positions := AList.delete tok (positions self1)\<rparr>)
         else self\<lparr>positions := AList.update tok pos1 (positions self)\<rparr>)"

text \<open>
  A same-direction fill (lines 141--143 and 158--160). The expression of line 142 converts
  the position's quantity for the first product and the new total quantity for the
  division; either conversion can raise \<^verbatim>\<open>OverflowError\<close>, before the position is touched
  (the order's own quantity was converted for the cost of line 104 already). A total of zero
  divides by zero: the entry price becomes an infinity or \<^verbatim>\<open>nan\<close> and the position stays in
  the dictionary with quantity zero.
\<close>

definition average_in ::
    "Simulator \<Rightarrow> int \<Rightarrow> Position \<Rightarrow> int \<Rightarrow> real \<Rightarrow> error + Simulator" where
  "average_in self tok pos qty fill_price =
     (let total_qty = Position.quantity pos + qty in
      case to_float (Position.quantity pos) of
        Inl e \<Rightarrow> Inl e
      | Inr held \<Rightarrow>
          (case to_float total_qty of
             Inl e \<Rightarrow> Inl e
           | Inr total' \<Rightarrow>
               (let pos1 = pos\<lparr>Position.entry_price :=
                                  (Position.entry_price pos * Fin held
                                     + Fin (fill_price * of_int qty)) / Fin total',
                               Position.quantity := total_qty\<rparr>
                in Inr (self\<lparr>positions := AList.update tok pos1 (positions self)\<rparr>))))"

text \<open>
  Lines 124--170: reconcile the fill with the position held for the token, if any. The
  result is the engine after the reconciliation, or the exception raised in it, in which
  case the engine is as it was handed in.
\<close>

definition reconcile ::
    "Simulator \<Rightarrow> int \<Rightarrow> string \<Rightarrow> string \<Rightarrow> int \<Rightarrow> real \<Rightarrow> int \<Rightarrow> error + Simulator" where
  "reconcile self tok symb sd qty fill_price ts =
     (case map_of (positions self) tok of
        None \<Rightarrow>
          Inr (self\<lparr>positions := AList.update tok
            \<lparr>token = tok,
             symbol = symb,
             side = (if sd = ''BUY'' then LONG else SHORT),
             quantity = qty,
             entry_price = Fin fill_price,
             entry_time = ts,
             stop_loss = None,
             target = None,
             exit_price = None,
             exit_time = None,
             realised_pnl = 0,
             margin_required = 0\<rparr> (positions self)\<rparr>)
      | Some pos \<Rightarrow>
          if Position.side pos = LONG then
            (if sd = ''BUY'' then average_in self tok pos qty fill_price
             else Inr (reduce_position self tok pos qty
                    ((Fin fill_price - Position.entry_price pos) * Fin (of_int qty))
                    fill_price ts))
          else
            (if sd = ''SELL'' then average_in self tok pos qty fill_price
             else Inr (reduce_position self tok pos qty
                    ((Position.entry_price pos - Fin fill_price) * Fin (of_int qty))
                    fill_price ts)))"

text \<open>
  \<^verbatim>\<open>place_order\<close>. Both raises of its own and the ones of \<^verbatim>\<open>get_market_price\<close> come
  before the first assignment. The timestamp of the bar is read again, after the cash
  update, for the order (line 118); the later reads of the same expression (lines 119,
  134, 152, 168) reuse its value. An exception of the reconciliation leaves the engine with
  the cash, the order-id counter and the order list already updated.
\<close>

definition place_order ::
    "Simulator \<Rightarrow> int \<Rightarrow> string \<Rightarrow> string \<Rightarrow> int \<Rightarrow> int \<Rightarrow> (error + Order) \<times> Simulator" where
  "place_order self tok symb side0 qty dt_index =
     (let sd = upper side0 in
      if sd \<noteq> ''BUY'' \<and> sd \<noteq> ''SELL'' then (Inl ValueError_side, self)
      else
        (case get_market_price self tok dt_index of
           Inl e \<Rightarrow> (Inl e, self)
         | Inr NaN \<Rightarrow> (Inl ValueError_no_price, self)
         | Inr (Num price') \<Rightarrow>
             (let slip = slippage self * price';
                  fill_price = (if sd = ''BUY'' then price' + slip else price' - slip);
                  cost = fill_price * of_int qty;
                  self1 = self\<lparr>cash := (if sd = ''BUY'' then cash self - cost
                                           else cash self + cost)\<rparr>
              in case bar_time self1 dt_index of
                   Inl e \<Rightarrow> (Inl e, self1)
                 | Inr ts \<Rightarrow>
                     (let order = \<lparr>order_id = order_id_counter self1,
                                   token = tok,
                                   symbol = symb,
                                   side = sd,
                                   quantity = qty,
                                   price = price',
                                   executed_price = Some fill_price,
                                   timestamp = ts,
                                   filled_time = Some ts,
                                   status = ''FILLED'',
                                   order_type = ''MARKET''\<rparr>;
                          self2 = self1\<lparr>order_id_counter := order_id_counter self1 + 1,
                                        orders := orders self1 @ [order]\<rparr>
                      in case reconcile self2 tok symb sd qty fill_price ts of
                           Inl e \<Rightarrow> (Inl e, self2)
                         | Inr self3 \<Rightarrow> (Inr order, self3)))))"

subsection \<open>Position management (\<^verbatim>\<open>square_off_all\<close>, \<^verbatim>\<open>mark_to_market\<close>, \<^verbatim>\<open>total_equity\<close>,
  \<^verbatim>\<open>check_max_loss\<close>)\<close>

text \<open>
  The loop of \<^verbatim>\<open>square_off_all\<close> over the keys listed before it starts. Each position is
  looked up again in the dictionary as it is then (\<^verbatim>\<open>self.positions[token]\<close> raises
  \<^verbatim>\<open>KeyError\<close> on a missing key); an exception of \<^verbatim>\<open>place_order\<close> ends the loop.
\<close>

fun square_off_loop :: "Simulator \<Rightarrow> int list \<Rightarrow> int \<Rightarrow> (error + unit) \<times> Simulator" where
  "square_off_loop self [] dt_index = (Inr (), self)"
| "square_off_loop self (tok # tokens) dt_index =
     (case map_of (positions self) tok of
        None \<Rightarrow> (Inl KeyError, self)
      | Some pos \<Rightarrow>
          (case place_order self tok (Position.symbol pos)
                  (if Position.side pos = LONG then ''SELL'' else ''BUY'')
                  (Position.quantity pos) dt_index of
             (Inl e, self') \<Rightarrow> (Inl e, self')
           | (Inr order, self') \<Rightarrow> square_off_loop self' tokens dt_index))"

definition square_off_all :: "Simulator \<Rightarrow> int \<Rightarrow> (error + unit) \<times> Simulator" where
  "square_off_all self dt_index = square_off_loop self (map fst (positions self)) dt_index"

text \<open>
  The loop of \<^verbatim>\<open>mark_to_market\<close> over \<^verbatim>\<open>self.positions.items()\<close>: the keys in order, each
  with the live position object, which \<^verbatim>\<open>update_pnl\<close> hands back. A key that has left the
  dictionary during the iteration is Python's \<^verbatim>\<open>RuntimeError\<close>.
\<close>

fun mark_to_market_loop ::
    "Simulator \<Rightarrow> int list \<Rightarrow> int \<Rightarrow> float64 \<Rightarrow> (error + float64) \<times> Simulator" where
  "mark_to_market_loop self [] dt_index total' = (Inr total', self)"
| "mark_to_market_loop self (tok # tokens) dt_index total' =
     (case map_of (positions self) tok of
        None \<Rightarrow> (Inl RuntimeError, self)
      | Some pos \<Rightarrow>
          (case get_market_price self tok dt_index of
             Inl e \<Rightarrow> (Inl e, self)
           | Inr NaN \<Rightarrow> mark_to_market_loop self tokens dt_index total'
           | Inr (Num price') \<Rightarrow>
               (case update_pnl pos price' of
                  (v, pos') \<Rightarrow>
                    mark_to_market_loop
                      (self\<lparr>positions := AList.update tok pos' (positions self)\<rparr>)
                      tokens dt_index (total' + v))))"

definition mark_to_market :: "Simulator \<Rightarrow> int \<Rightarrow> (error + float64) \<times> Simulator" where
  "mark_to_market self dt_index =
     mark_to_market_loop self (map fst (positions self)) dt_index 0"

text \<open>\<^verbatim>\<open>self.cash\<close> is read before the call, as Python evaluates the sum left to right.\<close>

definition total_equity :: "Simulator \<Rightarrow> int \<Rightarrow> (error + float64) \<times> Simulator" where
  "total_equity self dt_index =
     (let c = cash self in
      case mark_to_market self dt_index of
        (Inl e, self') \<Rightarrow> (Inl e, self')
      | (Inr m, self') \<Rightarrow> (Inr (Fin c + m), self'))"

definition check_max_loss :: "Simulator \<Rightarrow> int \<Rightarrow> (error + bool) \<times> Simulator" where
  "check_max_loss self dt_index =
     (case max_daily_loss self of
        None \<Rightarrow> (Inr False, self)
      | Some _ \<Rightarrow>
          (case total_equity self dt_index of
             (Inl e, self') \<Rightarrow> (Inl e, self')
           | (Inr equity, self') \<Rightarrow>
               (let loss = Fin (starting_cash self') - equity
                in case max_daily_loss self' of
                     None \<Rightarrow> (Inl TypeError, self')
                   | Some limit \<Rightarrow> (Inr (loss \<ge> Fin limit), self'))))"

subsection \<open>Callers\<close>

text \<open>
  A session is a sequence of calls on one engine. No caller in the repository catches an
  exception of the engine, so the first exception ends the session, with the state as the
  failed call left it.
\<close>

datatype call =
    PlaceOrder int string string int int
  | SquareOffAll int
  | SetTimeIndex "int list"

fun exec :: "Simulator \<Rightarrow> call \<Rightarrow> (error + unit) \<times> Simulator" where
  "exec self (PlaceOrder tok symb side0 qty dt_index) =
     (case place_order self tok symb side0 qty dt_index of
        (Inl e, self') \<Rightarrow> (Inl e, self')
      | (Inr order, self') \<Rightarrow> (Inr (), self'))"
| "exec self (SquareOffAll dt_index) = square_off_all self dt_index"
| "exec self (SetTimeIndex index) = (Inr (), set_time_index self index)"

fun run :: "Simulator \<Rightarrow> call list \<Rightarrow> (error + unit) \<times> Simulator" where
  "run self [] = (Inr (), self)"
| "run self (c # cs) =
     (case exec self c of
        (Inl e, self') \<Rightarrow> (Inl e, self')
      | (Inr u, self') \<Rightarrow> run self' cs)"

section \<open>Vocabulary of the statements\<close>

text \<open>
  The price an order executes at, from the observed price: a buy pays the slippage, a sell
  gives it up (line 103).
\<close>

definition executed :: "Simulator \<Rightarrow> string \<Rightarrow> real \<Rightarrow> real" where
  "executed self sd p = (if sd = ''BUY'' then p + slippage self * p else p - slippage self * p)"

text \<open>
  The side of the order that reduces a position, as \<^verbatim>\<open>square_off_all\<close> chooses it.
\<close>

definition closing_side :: "Position \<Rightarrow> string" where
  "closing_side pos = (if Position.side pos = LONG then ''SELL'' else ''BUY'')"

text \<open>
  The executed price recorded in an order; \<^verbatim>\<open>place_order\<close> always records one.
\<close>

definition fill_of :: "Order \<Rightarrow> real" where
  "fill_of ordr = (case executed_price ordr of Some f \<Rightarrow> f | None \<Rightarrow> Order.price ordr)"

text \<open>
  The realised profit of reducing a position by \<open>qty\<close> at fill price \<open>f\<close>: (fill - entry) * qty
  for a long position, (entry - fill) * qty for a short one.
\<close>

definition reduction_pnl :: "Position \<Rightarrow> real \<Rightarrow> int \<Rightarrow> float64" where
  "reduction_pnl pos f qty =
     (if Position.side pos = LONG then (Fin f - Position.entry_price pos) * Fin (of_int qty)
      else (Position.entry_price pos - Fin f) * Fin (of_int qty))"

text \<open>
  A request is what a caller passes with an order on a given token and side: symbol,
  quantity and bar index.
\<close>

type_synonym request = "string \<times> int \<times> int"

abbreviation req_qty :: "request \<Rightarrow> int" where "req_qty r \<equiv> fst (snd r)"
abbreviation req_bar :: "request \<Rightarrow> int" where "req_bar r \<equiv> snd (snd r)"

definition orders_for :: "int \<Rightarrow> string \<Rightarrow> request list \<Rightarrow> call list" where
  "orders_for tok sd rs = map (\<lambda>r. PlaceOrder tok (fst r) sd (req_qty r) (req_bar r)) rs"

text \<open>
  The quantity-weighted average of a list of (price, quantity) fills.
\<close>

definition weighted_average :: "(real \<times> int) list \<Rightarrow> real" where
  "weighted_average fills =
     sum_list (map (\<lambda>fq. fst fq * of_int (snd fq)) fills) / of_int (sum_list (map snd fills))"

text \<open>
  An order of the order list fills a request: same token, side and quantity, observed price
  the market price at the request's bar, executed price the observed one with slippage.
\<close>

definition fills :: "Simulator \<Rightarrow> int \<Rightarrow> string \<Rightarrow> request \<Rightarrow> Order \<Rightarrow> bool" where
  "fills s tok sd r ordr \<longleftrightarrow>
     Order.token ordr = tok \<and> Order.side ordr = sd \<and> Order.quantity ordr = req_qty r
     \<and> get_market_price s tok (req_bar r) = Inr (Num (Order.price ordr))
     \<and> executed_price ordr = Some (executed s sd (Order.price ordr))"

text \<open>
  An order is sized when its quantity is positive and, if it goes against the position held
  for its token, does not exceed that position's quantity. A session is sized when each of
  its orders is, in the state the order is placed in.
\<close>

definition sized_order :: "Simulator \<Rightarrow> int \<Rightarrow> string \<Rightarrow> int \<Rightarrow> bool" where
  "sized_order self tok side0 qty \<longleftrightarrow>
     0 < qty \<and>
     (case map_of (positions self) tok of
        None \<Rightarrow> True
      | Some pos \<Rightarrow> upper side0 = closing_side pos \<longrightarrow> qty \<le> Position.quantity pos)"

fun sized_call :: "Simulator \<Rightarrow> call \<Rightarrow> bool" where
  "sized_call self (PlaceOrder tok symb side0 qty dt_index) = sized_order self tok side0 qty"
| "sized_call self (SquareOffAll dt_index) = True"
| "sized_call self (SetTimeIndex index) = True"

fun sized_calls :: "Simulator \<Rightarrow> call list \<Rightarrow> bool" where
  "sized_calls self [] = True"
| "sized_calls self (c # cs) =
     (sized_call self c \<and>
      (case exec self c of
         (Inl e, self') \<Rightarrow> True
       | (Inr u, self') \<Rightarrow> sized_calls self' cs))"

definition positive_positions :: "Simulator \<Rightarrow> bool" where
  "positive_positions self \<longleftrightarrow> (\<forall>tp \<in> set (positions self). 0 < Position.quantity (snd tp))"

text \<open>
  No price exists for a token at or before a timestamp: the token has no frame, or no row
  of its frame up to the timestamp has a close other than \<^verbatim>\<open>nan\<close>.
\<close>

definition no_price :: "Simulator \<Rightarrow> int \<Rightarrow> int \<Rightarrow> bool" where
  "no_price self tok ts \<longleftrightarrow>
     (case market_data self tok of
        None \<Rightarrow> True
      | Some df \<Rightarrow> \<forall>row \<in> set df. fst row \<le> ts \<longrightarrow> snd row = NaN)"

subsection \<open>A small session used for the concrete checks\<close>

text \<open>
  Token 1 closes at 100 in minute 0 and at 110 in minute 1. Token 2 closes at 20 in minute 0
  and has no close (\<^verbatim>\<open>nan\<close>) in minute 1. Token 3 has its first row in minute 1, with
  close 50. Token 4 closes at 1 in minute 0. No other token has data. The session has the
  two bars 0 and 1, starting cash 1,000,000, no slippage and no loss limit.
\<close>

definition demo_data :: "int \<rightharpoonup> frame" where
  "demo_data =
     [1 \<mapsto> [(0, Num 100), (1, Num 110)],
      2 \<mapsto> [(0, Num 20), (1, NaN)],
      3 \<mapsto> [(1, Num 50)],
      4 \<mapsto> [(0, Num 1)]]"

definition demo :: Simulator where
  "demo = set_time_index (init demo_data 1000000 0 None) [0, 1]"

text \<open>
  States of the session: after buying 10 of token 1 at bar 0; after then selling 10 at bar 1;
  after selling 15 instead; after selling 1 of token 2 short at bar 0; with token 1 long and
  token 3 short; the first of these in an engine created with a loss limit of 500; and
  after buying 5 back on top of the oversold position, which brings its total to zero; and
  after buying \<open>10^308\<close> of token 4 at bar 0, a quantity a double can hold while twice it
  cannot.
\<close>

definition after_buy :: Simulator where
  "after_buy = snd (place_order demo 1 ''A'' ''BUY'' 10 0)"

definition after_sell :: Simulator where
  "after_sell = snd (place_order after_buy 1 ''A'' ''SELL'' 10 1)"

definition oversold :: "(error + unit) \<times> Simulator" where
  "oversold = run demo [PlaceOrder 1 ''A'' ''BUY'' 10 0, PlaceOrder 1 ''A'' ''SELL'' 15 1]"



definition with_limit :: Simulator where
  "with_limit =
     snd (place_order (set_time_index (init demo_data 1000000 0 (Some 500)) [0, 1])
            1 ''A'' ''BUY'' 10 0)"

definition flat_long :: "(error + unit) \<times> Simulator" where
  "flat_long =
     run demo [PlaceOrder 1 ''A'' ''BUY'' 10 0, PlaceOrder 1 ''A'' ''SELL'' 15 1,
               PlaceOrder 1 ''A'' ''BUY'' 5 1]"

definition huge :: int where
  "huge = 10 ^ 308"

definition huge_long :: Simulator where
  "huge_long = snd (place_order demo 4 ''D'' ''BUY'' huge 0)"

section \<open>Properties\<close>

subsection \<open>Evaluation of the concrete session\<close>

lemma upper_lits: "upper ''BUY'' = ''BUY''" "upper ''SELL'' = ''SELL''"
  by (simp_all add: upper_def upper_char_def)

lemmas engine_defs0 =
  init_def set_time_index_def place_order_def get_market_price_def bar_time_def
  index_get_def last_close_def loc_upto_def reconcile_def reduce_position_def average_in_def
  record_trade_def to_float_def minus_float64_def zero_float64_def
  upper_lits Let_def

lemmas engine_defs = engine_defs0 double_limit_def

lemmas demo_defs = demo_def demo_data_def engine_defs

lemmas valuation_defs =
  mark_to_market_def total_equity_def check_max_loss_def update_pnl_def

lemma huge_range:
  "\<bar>huge\<bar> < double_limit" "double_limit \<le> \<bar>huge + huge\<bar>" "double_limit \<le> \<bar>2 * huge\<bar>"
  by (simp_all add: huge_def double_limit_def)

lemma upper_buy: "upper ''buy'' = ''BUY''"
  by (simp add: upper_def upper_char_def)

lemma after_buy_eq:
  "after_buy = demo\<lparr>cash := 999000, order_id_counter := 2,
     orders := [\<lparr>order_id = 1, token = 1, symbol = ''A'', side = ''BUY'', quantity = 10,
                 price = 100, executed_price = Some 100, timestamp = 0, filled_time = Some 0,
                 status = ''FILLED'', order_type = ''MARKET''\<rparr>],
     positions := [(1, \<lparr>token = 1, symbol = ''A'', side = LONG, quantity = 10,
                       entry_price = Fin 100, entry_time = 0, stop_loss = None, target = None,
                       exit_price = None, exit_time = None, realised_pnl = Fin 0,
                       margin_required = 0\<rparr>)]\<rparr>"
  by (simp add: after_buy_def demo_defs)

subsection \<open>Association lists\<close>

lemma update_absent: "map_of al k = None \<Longrightarrow> AList.update k v al = al @ [(k, v)]"
  by (induction al) (auto split: if_splits)

lemma set_update_subset: "set (AList.update k v al) \<subseteq> insert (k, v) (set al)"
  by (induction al) auto

lemma set_delete_subset: "set (AList.delete k al) \<subseteq> set al"
  by (induction al) auto

lemma positive_update:
  assumes "\<forall>tp \<in> set al. 0 < Position.quantity (snd tp)" and "0 < Position.quantity v"
  shows "\<forall>tp \<in> set (AList.update k v al). 0 < Position.quantity (snd tp)"
  using assms set_update_subset [of k v al] by auto

lemma positive_delete:
  assumes "\<forall>tp \<in> set al. 0 < Position.quantity (snd tp)"
  shows "\<forall>tp \<in> set (AList.delete k al). 0 < Position.quantity (snd tp)"
  using assms set_delete_subset [of k al] by auto

lemma sum_list_pos:
  "xs \<noteq> [] \<Longrightarrow> \<forall>x \<in> set xs. (0::int) < x \<Longrightarrow> 0 < sum_list xs"
  by (induction xs) (auto simp: add_pos_nonneg sum_list_nonneg less_imp_le)

subsection \<open>Market prices\<close>

lemma get_market_price_bar_time:
  "get_market_price s tok d = Inr x \<Longrightarrow> \<exists>ts. bar_time s d = Inr ts"
  by (auto simp: get_market_price_def bar_time_def split: option.splits if_splits sum.splits)

lemma get_market_price_cong:
  "market_data s' = market_data s \<Longrightarrow> time_index s' = time_index s
     \<Longrightarrow> get_market_price s' tok d = get_market_price s tok d"
  by (simp add: get_market_price_def split: option.splits)

lemma last_close_nan:
  assumes "\<forall>row \<in> set df. fst row \<le> ts \<longrightarrow> snd row = NaN"
  shows "last_close df ts = NaN"
proof (cases "loc_upto df ts")
  case Nil
  then show ?thesis by (simp add: last_close_def)
next
  case (Cons r rs)
  then have "last (r # rs) \<in> set (loc_upto df ts)"
    using last_in_set [of "r # rs"] by simp
  then have "snd (last (r # rs)) = NaN"
    using assms by (simp add: loc_upto_def)
  with Cons show ?thesis by (simp add: last_close_def)
qed

text \<open>
  C8 (amended). For every token that has a frame in the market data and every bar index
  that addresses a bar of the time index, when no price exists for the token at or before
  the bar's timestamp, \<^verbatim>\<open>get_market_price\<close> returns \<^verbatim>\<open>nan\<close> and does not raise.
\<close>

theorem get_market_price_nan:
  assumes "market_data s tok \<noteq> None" and "bar_time s d = Inr ts" and "no_price s tok ts"
  shows "get_market_price s tok d = Inr NaN"
proof -
  from assms(1) obtain df where df: "market_data s tok = Some df" by blast
  with assms(3) have "last_close df ts = NaN"
    by (intro last_close_nan) (simp add: no_price_def)
  with df assms(2) show ?thesis
    by (auto simp: get_market_price_def bar_time_def index_get_def Let_def
          split: option.splits if_splits)
qed

theorem get_market_price_nan_witness:
  "market_data demo 3 \<noteq> None \<and> bar_time demo 0 = Inr 0 \<and> no_price demo 3 0
   \<and> get_market_price demo 3 0 = Inr NaN"
proof -
  have a: "market_data demo 3 \<noteq> None" by (simp add: demo_defs)
  have b: "bar_time demo 0 = Inr 0" by (simp add: demo_defs)
  have c: "no_price demo 3 0" by (simp add: no_price_def demo_defs)
  show ?thesis using a b c get_market_price_nan [OF a b c] by simp
qed

text \<open>
  The claim as stated, for every token, fails: token 9 has no market data, so no price
  exists for it at bar 0, and the lookup raises \<^verbatim>\<open>KeyError\<close> (line 72).
\<close>

theorem unknown_token_raises:
  "bar_time demo 0 = Inr 0 \<and> no_price demo 9 0 \<and> get_market_price demo 9 0 = Inl KeyError"
  by (simp add: no_price_def demo_defs)

subsection \<open>Placing an order\<close>

text \<open>
  C7 (amended). Every side value whose upper-cased form is neither \<^verbatim>\<open>BUY\<close> nor
  \<^verbatim>\<open>SELL\<close> is rejected with \<^verbatim>\<open>ValueError\<close> at placement, for every token, quantity and bar
  index, and the engine is unchanged.
\<close>

theorem invalid_side_rejected:
  assumes "upper side0 \<noteq> ''BUY''" and "upper side0 \<noteq> ''SELL''"
  shows "place_order s tok symb side0 qty d = (Inl ValueError_side, s)"
  using assms by (simp add: place_order_def)

theorem invalid_side_rejected_witness:
  "upper ''HOLD'' \<noteq> ''BUY'' \<and> upper ''HOLD'' \<noteq> ''SELL''
   \<and> place_order demo 1 ''A'' ''HOLD'' 10 0 = (Inl ValueError_side, demo)"
proof -
  have a: "upper ''HOLD'' \<noteq> ''BUY''" and b: "upper ''HOLD'' \<noteq> ''SELL''"
    by (simp_all add: upper_def upper_char_def)
  show ?thesis using a b invalid_side_rejected [OF a b] by simp
qed

text \<open>
  The claim as stated, for every side value outside the set, fails: the string
  \<^verbatim>\<open>buy\<close> is not in the set, is upper-cased (line 94) and is filled as a buy.
\<close>

theorem lower_case_side_accepted:
  "''buy'' \<noteq> ''BUY'' \<and> ''buy'' \<noteq> ''SELL''
   \<and> map_sum id Order.side (fst (place_order demo 1 ''A'' ''buy'' 10 0)) = Inr ''BUY''
   \<and> cash (snd (place_order demo 1 ''A'' ''buy'' 10 0)) = 999000"
  by (simp add: place_order_def upper_buy) (simp add: demo_defs)

text \<open>
  What a successful call does: the order it returns and the state it hands to the
  reconciliation of lines 124--170.
\<close>

lemma to_float_in_range: "\<bar>n\<bar> < double_limit \<Longrightarrow> to_float n = Inr (of_int n)"
  by (simp add: to_float_def)

lemma to_float_error: "to_float n = Inl e \<Longrightarrow> e = OverflowError"
  by (simp add: to_float_def split: if_splits)

lemma average_in_result:
  assumes "average_in s tok pos qty f = Inr s'"
  shows "\<exists>pos1. Position.quantity pos1 = Position.quantity pos + qty
           \<and> s' = s\<lparr>positions := AList.update tok pos1 (positions s)\<rparr>"
proof -
  from assms obtain ep where
    "s' = s\<lparr>positions := AList.update tok
            (pos\<lparr>Position.entry_price := ep,
                 Position.quantity := Position.quantity pos + qty\<rparr>) (positions s)\<rparr>"
    by (auto simp: average_in_def Let_def split: sum.splits)
  then show ?thesis
    by (intro exI [where x = "pos\<lparr>Position.entry_price := ep,
                 Position.quantity := Position.quantity pos + qty\<rparr>"]) simp
qed

lemma average_in_error: "average_in s tok pos qty f = Inl e \<Longrightarrow> e = OverflowError"
  by (auto simp: average_in_def Let_def split: sum.splits dest: to_float_error)

lemma reconcile_error: "reconcile s tok symb sd qty f ts = Inl e \<Longrightarrow> e = OverflowError"
  by (auto simp: reconcile_def split: option.splits if_splits dest: average_in_error)

lemma reconcile_frame:
  assumes "reconcile s tok symb sd qty f ts = Inr s'"
  shows "market_data s' = market_data s \<and> time_index s' = time_index s
    \<and> slippage s' = slippage s \<and> starting_cash s' = starting_cash s
    \<and> max_daily_loss s' = max_daily_loss s \<and> cash s' = cash s \<and> orders s' = orders s
    \<and> order_id_counter s' = order_id_counter s"
  using assms
  by (auto simp: reconcile_def reduce_position_def record_trade_def Let_def
        split: option.splits if_splits dest!: average_in_result)

text \<open>
  The engine as \<^verbatim>\<open>place_order\<close> hands it to the reconciliation: cash, order-id counter and
  order list updated.
\<close>

lemma place_order_success:
  assumes "get_market_price s tok d = Inr (Num p)" and "sd = ''BUY'' \<or> sd = ''SELL''"
  shows "\<exists>ts ordr s2. bar_time s d = Inr ts
           \<and> Order.token ordr = tok \<and> Order.side ordr = sd \<and> Order.quantity ordr = qty
           \<and> Order.price ordr = p
           \<and> executed_price ordr = Some (executed s sd p)
           \<and> s2 = s\<lparr>cash := (if sd = ''BUY'' then cash s - executed s sd p * of_int qty
                                  else cash s + executed s sd p * of_int qty),
                        order_id_counter := order_id_counter s + 1,
                        orders := orders s @ [ordr]\<rparr>
           \<and> place_order s tok symb sd qty d =
               (case reconcile s2 tok symb sd qty (executed s sd p) ts of
                  Inl e \<Rightarrow> (Inl e, s2)
                | Inr s3 \<Rightarrow> (Inr ordr, s3))"
proof -
  obtain ts where ts: "bar_time s d = Inr ts"
    using assms(1) get_market_price_bar_time by blast
  then have bt: "\<And>c. bar_time (s\<lparr>cash := c\<rparr>) d = Inr ts"
    by (simp add: bar_time_def)
  let ?ordr = "\<lparr>order_id = order_id_counter s, token = tok, symbol = symb, side = sd,
                quantity = qty, price = p, executed_price = Some (executed s sd p),
                timestamp = ts, filled_time = Some ts, status = ''FILLED'',
                order_type = ''MARKET''\<rparr>"
  let ?s2 = "s\<lparr>cash := (if sd = ''BUY'' then cash s - executed s sd p * of_int qty
                                  else cash s + executed s sd p * of_int qty),
                        order_id_counter := order_id_counter s + 1,
                        orders := orders s @ [?ordr]\<rparr>"
  have "place_order s tok symb sd qty d =
               (case reconcile ?s2 tok symb sd qty (executed s sd p) ts of
                  Inl e \<Rightarrow> (Inl e, ?s2)
                | Inr s3 \<Rightarrow> (Inr ?ordr, s3))"
    using assms bt
    by (auto simp: place_order_def Let_def executed_def upper_lits split: sum.splits)
  with ts show ?thesis
    by (intro exI [where x = ts] exI [where x = "?ordr"] exI [where x = "?s2"]) simp
qed

lemma place_order_upper:
  "upper side0 = ''BUY'' \<or> upper side0 = ''SELL''
     \<Longrightarrow> place_order s tok symb side0 qty d = place_order s tok symb (upper side0) qty d"
  by (auto simp: place_order_def upper_lits)

lemma place_order_frame:
  "market_data (snd (place_order s tok symb side0 qty d)) = market_data s"
  "time_index (snd (place_order s tok symb side0 qty d)) = time_index s"
  "slippage (snd (place_order s tok symb side0 qty d)) = slippage s"
  "starting_cash (snd (place_order s tok symb side0 qty d)) = starting_cash s"
  "max_daily_loss (snd (place_order s tok symb side0 qty d)) = max_daily_loss s"
  by (auto simp: place_order_def Let_def split: sum.splits npfloat.splits dest!: reconcile_frame)

lemma get_market_price_place_order [simp]:
  "get_market_price (snd (place_order s tok symb side0 qty d)) tok' d' = get_market_price s tok' d'"
  by (rule get_market_price_cong) (simp_all add: place_order_frame)

lemma reconcile_open:
  assumes "map_of (positions s) tok = None"
  shows "\<exists>pos. Position.side pos = (if sd = ''BUY'' then LONG else SHORT)
           \<and> Position.quantity pos = qty \<and> Position.entry_price pos = Fin f
           \<and> realised_pnl pos = 0 \<and> Position.symbol pos = symb
           \<and> reconcile s tok symb sd qty f ts = Inr (s\<lparr>positions := positions s @ [(tok, pos)]\<rparr>)"
  using assms
  by (intro exI [where x = "\<lparr>token = tok, symbol = symb,
                side = (if sd = ''BUY'' then LONG else SHORT), quantity = qty,
                entry_price = Fin f, entry_time = ts, stop_loss = None, target = None,
                exit_price = None, exit_time = None, realised_pnl = 0,
                margin_required = 0\<rparr>"])
     (simp add: reconcile_def update_absent)

lemma reconcile_average:
  assumes "map_of (positions s) tok = Some pos"
      and "Position.side pos = LONG \<and> sd = ''BUY'' \<or> Position.side pos = SHORT \<and> sd = ''SELL''"
      and "\<bar>Position.quantity pos\<bar> < double_limit"
      and "\<bar>Position.quantity pos + qty\<bar> < double_limit"
  shows "reconcile s tok symb sd qty f ts =
           Inr (s\<lparr>positions := AList.update tok (pos\<lparr>Position.entry_price :=
               (Position.entry_price pos * Fin (of_int (Position.quantity pos))
                  + Fin (f * of_int qty)) / Fin (of_int (Position.quantity pos + qty)),
               Position.quantity := Position.quantity pos + qty\<rparr>) (positions s)\<rparr>)"
  using assms by (auto simp: reconcile_def average_in_def Let_def to_float_in_range)

lemma reconcile_reduce:
  assumes "map_of (positions s) tok = Some pos"
      and "Position.side pos = LONG \<and> sd = ''SELL'' \<or> Position.side pos = SHORT \<and> sd = ''BUY''"
      and "qty \<noteq> Position.quantity pos"
  shows "reconcile s tok symb sd qty f ts =
           Inr (s\<lparr>positions := AList.update tok (pos\<lparr>Position.quantity := Position.quantity pos - qty,
               realised_pnl := realised_pnl pos + reduction_pnl pos f qty\<rparr>) (positions s)\<rparr>)"
  using assms by (auto simp: reconcile_def reduce_position_def reduction_pnl_def Let_def)

lemma reconcile_close:
  assumes "map_of (positions s) tok = Some pos"
      and "Position.side pos = LONG \<and> sd = ''SELL'' \<or> Position.side pos = SHORT \<and> sd = ''BUY''"
      and "qty = Position.quantity pos"
  shows "reconcile s tok symb sd qty f ts =
           Inr (s\<lparr>positions := AList.delete tok (positions s),
                 trade_log := trade_log s @
              [\<lparr>instrument = Position.symbol pos, side = Position.side pos,
                entry_time = Position.entry_time pos, exit_time = ts,
                entry_price = Position.entry_price pos, exit_price = Some f,
                quantity = 0, pnl = realised_pnl pos + reduction_pnl pos f qty\<rparr>]\<rparr>)"
  using assms
  by (auto simp: reconcile_def reduce_position_def reduction_pnl_def record_trade_def Let_def
        delete_update_same)

lemma closing_side_cases: "closing_side pos = ''BUY'' \<or> closing_side pos = ''SELL''"
  by (simp add: closing_side_def)

lemma closing_side_opposite:
  "Position.side pos = LONG \<and> closing_side pos = ''SELL'' \<or> Position.side pos = SHORT \<and> closing_side pos = ''BUY''"
  by (cases "Position.side pos") (simp_all add: closing_side_def)

lemma exec_place_order:
  assumes "get_market_price s tok d = Inr (Num p)" and "sd = ''BUY'' \<or> sd = ''SELL''"
  shows "\<exists>ts ordr s0.
           exec s (PlaceOrder tok symb sd qty d)
             = (case reconcile s0 tok symb sd qty (fill_of ordr) ts of
                  Inl e \<Rightarrow> (Inl e, s0)
                | Inr s3 \<Rightarrow> (Inr (), s3))
           \<and> positions s0 = positions s \<and> trade_log s0 = trade_log s
           \<and> orders s0 = orders s @ [ordr]
           \<and> market_data s0 = market_data s \<and> time_index s0 = time_index s
           \<and> slippage s0 = slippage s
           \<and> Order.token ordr = tok \<and> Order.side ordr = sd \<and> Order.quantity ordr = qty
           \<and> Order.price ordr = p
           \<and> executed_price ordr = Some (executed s sd p) \<and> fill_of ordr = executed s sd p"
proof -
  from place_order_success [OF assms, where qty = qty and symb = symb]
  obtain ts ordr s2 where
    o: "Order.token ordr = tok" "Order.side ordr = sd" "Order.quantity ordr = qty"
       "executed_price ordr = Some (executed s sd p)" "Order.price ordr = p"
    and s2: "s2 = s\<lparr>cash := (if sd = ''BUY'' then cash s - executed s sd p * of_int qty
                                  else cash s + executed s sd p * of_int qty),
                        order_id_counter := order_id_counter s + 1,
                        orders := orders s @ [ordr]\<rparr>"
    and po: "place_order s tok symb sd qty d =
               (case reconcile s2 tok symb sd qty (executed s sd p) ts of
                  Inl e \<Rightarrow> (Inl e, s2)
                | Inr s3 \<Rightarrow> (Inr ordr, s3))"
    by blast
  have f: "fill_of ordr = executed s sd p" using o by (simp add: fill_of_def)
  have ex: "exec s (PlaceOrder tok symb sd qty d)
             = (case reconcile s2 tok symb sd qty (fill_of ordr) ts of
                  Inl e \<Rightarrow> (Inl e, s2)
                | Inr s3 \<Rightarrow> (Inr (), s3))"
    using po f by (simp split: sum.splits)
  have fr: "positions s2 = positions s" "trade_log s2 = trade_log s"
    "orders s2 = orders s @ [ordr]" "market_data s2 = market_data s"
    "time_index s2 = time_index s" "slippage s2 = slippage s"
    by (simp_all add: s2)
  show ?thesis
    apply (rule exI [where x = ts])
    apply (rule exI [where x = ordr])
    apply (rule exI [where x = s2])
    using ex fr o f by simp
qed


lemma exec_partial_reduction:
  assumes pos: "map_of (positions s) tok = Some pos"
      and gmp: "get_market_price s tok d = Inr (Num p)"
      and ne: "qty \<noteq> Position.quantity pos"
  shows "\<exists>s1 ordr. exec s (PlaceOrder tok symb (closing_side pos) qty d) = (Inr (), s1)
           \<and> orders s1 = orders s @ [ordr] \<and> Order.quantity ordr = qty
           \<and> trade_log s1 = trade_log s
           \<and> map_of (positions s1) tok =
                 Some (pos\<lparr>Position.quantity := Position.quantity pos - qty,
                          realised_pnl := realised_pnl pos + reduction_pnl pos (fill_of ordr) qty\<rparr>)
           \<and> market_data s1 = market_data s \<and> time_index s1 = time_index s"
proof -
  from exec_place_order [OF gmp closing_side_cases, where qty = qty and symb = symb]
  obtain ts ordr s0 where
    ex: "exec s (PlaceOrder tok symb (closing_side pos) qty d)
           = (case reconcile s0 tok symb (closing_side pos) qty (fill_of ordr) ts of
                Inl e \<Rightarrow> (Inl e, s0)
              | Inr s3 \<Rightarrow> (Inr (), s3))"
    and s0: "positions s0 = positions s" "trade_log s0 = trade_log s"
      "orders s0 = orders s @ [ordr]" "market_data s0 = market_data s"
      "time_index s0 = time_index s"
    and o: "Order.quantity ordr = qty"
    by blast
  have pos0: "map_of (positions s0) tok = Some pos" using pos s0 by simp
  from reconcile_reduce [OF pos0 closing_side_opposite ne] ex s0 o
  show ?thesis by (simp add: update_conv')
qed

lemma exec_full_reduction:
  assumes pos: "map_of (positions s) tok = Some pos"
      and gmp: "get_market_price s tok d = Inr (Num p)"
  shows "\<exists>s1 ordr t. exec s (PlaceOrder tok symb (closing_side pos) (Position.quantity pos) d) = (Inr (), s1)
           \<and> orders s1 = orders s @ [ordr]
           \<and> Order.token ordr = tok \<and> Order.side ordr = closing_side pos
           \<and> Order.quantity ordr = Position.quantity pos
           \<and> trade_log s1 = trade_log s @ [t]
           \<and> instrument t = Position.symbol pos \<and> TradeLog.side t = Position.side pos
           \<and> TradeLog.entry_price t = Position.entry_price pos
           \<and> TradeLog.exit_price t = Some (fill_of ordr)
           \<and> pnl t = realised_pnl pos + reduction_pnl pos (fill_of ordr) (Position.quantity pos)
           \<and> positions s1 = AList.delete tok (positions s)
           \<and> market_data s1 = market_data s \<and> time_index s1 = time_index s"
proof -
  from exec_place_order [OF gmp closing_side_cases, where qty = "Position.quantity pos" and symb = symb]
  obtain ts ordr s0 where
    ex: "exec s (PlaceOrder tok symb (closing_side pos) (Position.quantity pos) d)
           = (case reconcile s0 tok symb (closing_side pos) (Position.quantity pos)
                     (fill_of ordr) ts of
                Inl e \<Rightarrow> (Inl e, s0)
              | Inr s3 \<Rightarrow> (Inr (), s3))"
    and s0: "positions s0 = positions s" "trade_log s0 = trade_log s"
      "orders s0 = orders s @ [ordr]" "market_data s0 = market_data s"
      "time_index s0 = time_index s"
    and o: "Order.quantity ordr = Position.quantity pos" "Order.token ordr = tok"
      "Order.side ordr = closing_side pos"
    by blast
  have pos0: "map_of (positions s0) tok = Some pos" using pos s0 by simp
  from reconcile_close [OF pos0 closing_side_opposite refl] ex s0 o
  show ?thesis by simp
qed

subsection \<open>Failure of an order\<close>

text \<open>
  C9 (amended). Whenever \<^verbatim>\<open>place_order\<close> raises \<^verbatim>\<open>ValueError\<close>, \<^verbatim>\<open>KeyError\<close> or
  \<^verbatim>\<open>IndexError\<close> (invalid side, unknown token, bar index out of range, no price), the
  engine is left exactly as it was: cash, positions, orders, trade log and order-id counter,
  and every other field. These raises come before the first assignment, and the read of
  the bar's timestamp after the cash update cannot raise, because \<^verbatim>\<open>get_market_price\<close>
  has already read the same entry. The only other exception is the \<^verbatim>\<open>OverflowError\<close> of
  the averaging.
\<close>

theorem place_order_atomic:
  assumes "fst (place_order s tok symb side0 qty d) = Inl e" and "e \<noteq> OverflowError"
  shows "snd (place_order s tok symb side0 qty d) = s"
proof (cases "upper side0 = ''BUY'' \<or> upper side0 = ''SELL''")
  case False
  then show ?thesis by (simp add: place_order_def)
next
  case sd: True
  show ?thesis
  proof (cases "get_market_price s tok d")
    case (Inl e')
    then show ?thesis by (simp add: place_order_def Let_def)
  next
    case gmp: (Inr x)
    show ?thesis
    proof (cases x)
      case NaN
      with gmp show ?thesis by (simp add: place_order_def Let_def)
    next
      case (Num p)
      with gmp have g: "get_market_price s tok d = Inr (Num p)" by simp
      from place_order_success [OF g sd, where qty = qty and symb = symb]
      obtain ts ordr s2 where
        po: "place_order s tok symb (upper side0) qty d =
               (case reconcile s2 tok symb (upper side0) qty (executed s (upper side0) p) ts of
                  Inl e \<Rightarrow> (Inl e, s2)
                | Inr s3 \<Rightarrow> (Inr ordr, s3))"
        by fastforce
      show ?thesis
      proof (cases "reconcile s2 tok symb (upper side0) qty (executed s (upper side0) p) ts")
        case (Inl e')
        then have "e' = OverflowError" by (rule reconcile_error)
        with Inl po place_order_upper [OF sd, of s tok symb qty d] assms show ?thesis
          by simp
      next
        case (Inr s3)
        with po place_order_upper [OF sd, of s tok symb qty d] assms(1) show ?thesis
          by simp
      qed
    qed
  qed
qed

theorem place_order_atomic_witness:
  "fst (place_order demo 1 ''A'' ''HOLD'' 10 0) = Inl ValueError_side
   \<and> snd (place_order demo 1 ''A'' ''HOLD'' 10 0) = demo
   \<and> fst (place_order demo 2 ''B'' ''BUY'' 10 1) = Inl ValueError_no_price
   \<and> snd (place_order demo 2 ''B'' ''BUY'' 10 1) = demo"
proof -
  have a: "fst (place_order demo 1 ''A'' ''HOLD'' 10 0) = Inl ValueError_side"
    by (simp add: place_order_def upper_def upper_char_def)
  have b: "fst (place_order demo 2 ''B'' ''BUY'' 10 1) = Inl ValueError_no_price"
    by (simp add: demo_defs)
  show ?thesis
    using a b place_order_atomic [OF a] place_order_atomic [OF b] by simp
qed

text \<open>
  The claim as stated, whenever \<^verbatim>\<open>place_order\<close> raises, fails: with \<open>10^308\<close> of token 4
  held (bought at 1), buying \<open>10^308\<close> more raises \<^verbatim>\<open>OverflowError\<close> at the division of line 142, the new
  total being beyond the double range, after the cash was charged, the order-id counter
  advanced and the order appended; the position is as before.
\<close>

theorem overflow_after_update:
  "fst (place_order huge_long 4 ''D'' ''BUY'' huge 0) = Inl OverflowError
   \<and> cash (snd (place_order huge_long 4 ''D'' ''BUY'' huge 0)) = cash huge_long - of_int huge
   \<and> order_id_counter (snd (place_order huge_long 4 ''D'' ''BUY'' huge 0))
       = order_id_counter huge_long + 1
   \<and> length (orders (snd (place_order huge_long 4 ''D'' ''BUY'' huge 0)))
       = length (orders huge_long) + 1
   \<and> positions (snd (place_order huge_long 4 ''D'' ''BUY'' huge 0)) = positions huge_long
   \<and> map (Position.quantity \<circ> snd) (positions huge_long) = [huge]
   \<and> huge = 10 ^ 308"
  by (simp add: huge_long_def demo_def demo_data_def engine_defs0 huge_range) (simp add: huge_def)

subsection \<open>The scenario of the specification\<close>

text \<open>
  C1 (amended). From a fresh engine with cash 1,000,000 and no slippage, buying 10 of a
  token priced 100 leaves cash 999,000 and an open position: long, quantity 10, entry price
  100. Selling 10 of it at 110 then appends exactly one trade record, with side long, entry
  price 100, exit price 110 and pnl 100, leaves cash 1,000,100 and no position for the
  token.
\<close>

theorem scenario_buy_then_sell:
  "cash after_buy = 999000
   \<and> map (\<lambda>tp. (fst tp, Position.side (snd tp), Position.quantity (snd tp),
                  Position.entry_price (snd tp))) (positions after_buy) = [(1, LONG, 10, Fin 100)]
   \<and> trade_log after_buy = []
   \<and> map (\<lambda>t. (TradeLog.side t, TradeLog.entry_price t, TradeLog.exit_price t, pnl t))
         (trade_log after_sell) = [(LONG, Fin 100, Some 110, Fin 100)]
   \<and> cash after_sell = 1000100
   \<and> map_of (positions after_sell) 1 = None
   \<and> positions after_sell = []"
  by (simp add: after_sell_def after_buy_eq) (simp add: demo_defs)

text \<open>
  The cash figures of the claim as stated, 998,000 and 999,100, are not the ones the code
  computes: ten units at 100 cost 1,000.
\<close>

theorem scenario_cash_differs:
  "cash after_buy \<noteq> 998000 \<and> cash after_sell \<noteq> 999100"
  by (simp add: after_sell_def after_buy_eq) (simp add: demo_defs)

text \<open>
  The quantity the trade record carries is the position's quantity at the time it is
  logged, after the decrement of line 147, which is zero for every record.
\<close>

lemma scenario_logged_quantity: "map TradeLog.quantity (trade_log after_sell) = [0]"
  by (simp add: after_sell_def after_buy_eq) (simp add: demo_defs)

subsection \<open>Closing a position by reductions\<close>

text \<open>
  C3. Take any open position and any non-empty sequence of orders against it, with
  positive quantities that sum to the position's quantity and a price available at each.
  Placing them one after another succeeds, appends exactly one trade record, whose pnl is
  the realised amount the position carried before (zero unless it was reduced earlier)
  plus the sum of the realised amounts of these reductions, and removes the token from the
  open-position mapping.
\<close>

theorem close_by_reductions:
  assumes "map_of (positions s) tok = Some pos"
      and "rs \<noteq> []"
      and "\<forall>r \<in> set rs. 0 < req_qty r
             \<and> (\<exists>p. get_market_price s tok (req_bar r) = Inr (Num p))"
      and "sum_list (map req_qty rs) = Position.quantity pos"
  shows "\<exists>s' t new.
           run s (orders_for tok (closing_side pos) rs) = (Inr (), s')
           \<and> trade_log s' = trade_log s @ [t]
           \<and> orders s' = orders s @ new
           \<and> map Order.quantity new = map req_qty rs
           \<and> pnl t = realised_pnl pos
                 + sum_list (map (\<lambda>ordr. reduction_pnl pos (fill_of ordr) (Order.quantity ordr)) new)
           \<and> map_of (positions s') tok = None"
  using assms(2,1,3,4) unfolding orders_for_def
proof (induction rs arbitrary: s pos rule: list_nonempty_induct)
  case (single r)
  obtain symb qty d where r: "r = (symb, qty, d)" by (cases r)
  with single obtain p where p: "get_market_price s tok d = Inr (Num p)" and q: "qty = Position.quantity pos"
    by auto
  from exec_full_reduction [OF single(1) p, of symb] r q
  show ?case by (fastforce simp: delete_conv')
next
  case (cons r rs)
  obtain symb qty d where r: "r = (symb, qty, d)" by (cases r)
  with cons.prems obtain p where p: "get_market_price s tok d = Inr (Num p)" and q: "0 < qty"
    by auto
  have "0 < sum_list (map (\<lambda>r. fst (snd r)) rs)"
    using cons.hyps cons.prems(2) by (intro sum_list_pos) auto
  with cons.prems(3) r have ne: "qty \<noteq> Position.quantity pos" by simp
  from exec_partial_reduction [OF cons.prems(1) p ne, of symb]
  obtain s1 ordr where
    ex: "exec s (PlaceOrder tok symb (closing_side pos) qty d) = (Inr (), s1)"
    and s1: "orders s1 = orders s @ [ordr]" "Order.quantity ordr = qty" "trade_log s1 = trade_log s"
      "market_data s1 = market_data s" "time_index s1 = time_index s"
    and pos1: "map_of (positions s1) tok =
                 Some (pos\<lparr>Position.quantity := Position.quantity pos - qty,
                          realised_pnl := realised_pnl pos + reduction_pnl pos (fill_of ordr) qty\<rparr>)"
    by blast
  let ?pos1 = "pos\<lparr>Position.quantity := Position.quantity pos - qty,
                    realised_pnl := realised_pnl pos + reduction_pnl pos (fill_of ordr) qty\<rparr>"
  have same: "closing_side ?pos1 = closing_side pos" "\<And>f n. reduction_pnl ?pos1 f n = reduction_pnl pos f n"
    by (simp_all add: closing_side_def reduction_pnl_def)
  have gmp1: "\<forall>r \<in> set rs. 0 < fst (snd r) \<and> (\<exists>p. get_market_price s1 tok (snd (snd r)) = Inr (Num p))"
    using cons.prems(2) get_market_price_cong [OF s1(4,5)] by simp
  have sum1: "sum_list (map (\<lambda>r. fst (snd r)) rs) = Position.quantity ?pos1"
    using cons.prems(3) r by simp
  from cons.IH [OF pos1 gmp1 sum1]
  obtain s' t new where
    "run s1 (map (\<lambda>r. PlaceOrder tok (fst r) (closing_side pos) (fst (snd r)) (snd (snd r))) rs) = (Inr (), s')"
    "trade_log s' = trade_log s1 @ [t]"
    "orders s' = orders s1 @ new"
    "map Order.quantity new = map (\<lambda>r. fst (snd r)) rs"
    "pnl t = realised_pnl ?pos1
                 + sum_list (map (\<lambda>ordr. reduction_pnl pos (fill_of ordr) (Order.quantity ordr)) new)"
    "map_of (positions s') tok = None"
    unfolding same by blast
  with ex s1 r show ?case
    apply (intro exI [where x = s'] exI [where x = t] exI [where x = "ordr # new"])
    apply (simp add: add.assoc)
    done
qed

theorem close_by_reductions_witness:
  "map_of (positions after_buy) 1 = Some (snd (hd (positions after_buy)))
   \<and> (\<exists>s' t new.
         run after_buy (orders_for 1 ''SELL'' [(''A'', 4, 0), (''A'', 6, 1)]) = (Inr (), s')
         \<and> trade_log s' = trade_log after_buy @ [t]
         \<and> orders s' = orders after_buy @ new
         \<and> map Order.quantity new = [4, 6]
         \<and> pnl t = sum_list (map (\<lambda>ordr. Fin ((fill_of ordr - 100) * of_int (Order.quantity ordr)))
                           new)
         \<and> map_of (positions s') 1 = None)"
proof -
  let ?pos = "snd (hd (positions after_buy))"
  let ?rs = "[(''A'', 4, 0), (''A'', 6, 1)] :: request list"
  have a: "map_of (positions after_buy) 1 = Some ?pos"
    by (simp add: after_buy_eq)
  have b: "?rs \<noteq> []" by simp
  have c: "\<forall>r \<in> set ?rs. 0 < req_qty r
             \<and> (\<exists>p. get_market_price after_buy 1 (req_bar r) = Inr (Num p))"
    by (simp add: after_buy_def) (simp add: demo_defs)
  have d: "sum_list (map (\<lambda>r. req_qty r) ?rs) = Position.quantity ?pos"
    by (simp add: after_buy_eq)
  have e: "closing_side ?pos = ''SELL''" "realised_pnl ?pos = 0"
    "\<And>f n. reduction_pnl ?pos f n = Fin ((f - 100) * of_int n)"
    by (simp_all add: after_buy_eq closing_side_def reduction_pnl_def minus_float64_def
          zero_float64_def)
  show ?thesis
    using a close_by_reductions [OF a b c d]
    unfolding e by simp
qed

subsection \<open>Averaging in\<close>

lemma fills_cong:
  "market_data s' = market_data s \<Longrightarrow> time_index s' = time_index s \<Longrightarrow> slippage s' = slippage s
     \<Longrightarrow> fills s' tok sd = fills s tok sd"
  using get_market_price_cong [of s' s] by (intro ext) (simp add: fills_def executed_def)

lemma fills_quantities:
  "list_all2 (fills s tok sd) rs new \<Longrightarrow> map Order.quantity new = map req_qty rs"
  by (induction rs new rule: list_all2_induct) (simp_all add: fills_def)

lemma exec_open:
  assumes none: "map_of (positions s) tok = None"
      and gmp: "get_market_price s tok d = Inr (Num p)"
      and sd: "sd = ''BUY'' \<or> sd = ''SELL''"
  shows "\<exists>s1 ordr pos0.
           exec s (PlaceOrder tok symb sd qty d) = (Inr (), s1)
           \<and> orders s1 = orders s @ [ordr] \<and> fills s tok sd (symb, qty, d) ordr
           \<and> trade_log s1 = trade_log s
           \<and> map_of (positions s1) tok = Some pos0
           \<and> Position.side pos0 = (if sd = ''BUY'' then LONG else SHORT)
           \<and> Position.quantity pos0 = qty
           \<and> Position.entry_price pos0 = Fin (fill_of ordr)
           \<and> market_data s1 = market_data s \<and> time_index s1 = time_index s
           \<and> slippage s1 = slippage s"
proof -
  from exec_place_order [OF gmp sd, where qty = qty and symb = symb]
  obtain ts ordr s0 where
    ex: "exec s (PlaceOrder tok symb sd qty d)
           = (case reconcile s0 tok symb sd qty (fill_of ordr) ts of
                Inl e \<Rightarrow> (Inl e, s0)
              | Inr s3 \<Rightarrow> (Inr (), s3))"
    and s0: "positions s0 = positions s" "trade_log s0 = trade_log s"
      "orders s0 = orders s @ [ordr]" "market_data s0 = market_data s"
      "time_index s0 = time_index s" "slippage s0 = slippage s"
    and o: "Order.token ordr = tok" "Order.side ordr = sd" "Order.quantity ordr = qty"
      "Order.price ordr = p" "executed_price ordr = Some (executed s sd p)"
    by blast
  have none0: "map_of (positions s0) tok = None" using none s0 by simp
  from reconcile_open [OF none0, of sd qty "fill_of ordr" symb ts]
  obtain pos0 where
    pos0: "Position.side pos0 = (if sd = ''BUY'' then LONG else SHORT)"
      "Position.quantity pos0 = qty" "Position.entry_price pos0 = Fin (fill_of ordr)"
    and rc: "reconcile s0 tok symb sd qty (fill_of ordr) ts
               = Inr (s0\<lparr>positions := positions s0 @ [(tok, pos0)]\<rparr>)"
    by blast
  have f0: "fills s tok sd (symb, qty, d) ordr" using o gmp by (simp add: fills_def)
  show ?thesis
    apply (intro exI [where x = "s0\<lparr>positions := positions s0 @ [(tok, pos0)]\<rparr>"]
                 exI [where x = ordr] exI [where x = pos0])
    using ex rc s0 pos0 f0 none0
    apply (simp add: map_add_def)
    done
qed

lemma exec_average:
  assumes pos: "map_of (positions s) tok = Some pos"
      and same: "Position.side pos = LONG \<and> sd = ''BUY'' \<or> Position.side pos = SHORT \<and> sd = ''SELL''"
      and gmp: "get_market_price s tok d = Inr (Num p)"
      and held: "\<bar>Position.quantity pos\<bar> < double_limit"
      and total: "\<bar>Position.quantity pos + qty\<bar> < double_limit"
  shows "\<exists>s1 ordr.
           exec s (PlaceOrder tok symb sd qty d) = (Inr (), s1)
           \<and> orders s1 = orders s @ [ordr] \<and> fills s tok sd (symb, qty, d) ordr
           \<and> trade_log s1 = trade_log s
           \<and> map_of (positions s1) tok =
                 Some (pos\<lparr>Position.entry_price :=
                          (Position.entry_price pos * Fin (of_int (Position.quantity pos))
                             + Fin (fill_of ordr * of_int qty))
                          / Fin (of_int (Position.quantity pos + qty)),
                        Position.quantity := Position.quantity pos + qty\<rparr>)
           \<and> market_data s1 = market_data s \<and> time_index s1 = time_index s
           \<and> slippage s1 = slippage s"
proof -
  have sd: "sd = ''BUY'' \<or> sd = ''SELL''" using same by blast
  from exec_place_order [OF gmp sd, where qty = qty and symb = symb]
  obtain ts ordr s0 where
    ex: "exec s (PlaceOrder tok symb sd qty d)
           = (case reconcile s0 tok symb sd qty (fill_of ordr) ts of
                Inl e \<Rightarrow> (Inl e, s0)
              | Inr s3 \<Rightarrow> (Inr (), s3))"
    and s0: "positions s0 = positions s" "trade_log s0 = trade_log s"
      "orders s0 = orders s @ [ordr]" "market_data s0 = market_data s"
      "time_index s0 = time_index s" "slippage s0 = slippage s"
    and o: "Order.token ordr = tok" "Order.side ordr = sd" "Order.quantity ordr = qty"
      "Order.price ordr = p" "executed_price ordr = Some (executed s sd p)"
    by blast
  have pos0: "map_of (positions s0) tok = Some pos" using pos s0 by simp
  have f0: "fills s tok sd (symb, qty, d) ordr" using o gmp by (simp add: fills_def)
  from reconcile_average [OF pos0 same held total, of symb "fill_of ordr" ts] ex s0 f0
  show ?thesis by (simp add: update_conv')
qed

lemma average_run:
  assumes "map_of (positions s) tok = Some pos"
      and "Position.side pos = LONG \<and> sd = ''BUY'' \<or> Position.side pos = SHORT \<and> sd = ''SELL''"
      and "0 < Position.quantity pos"
      and "Position.entry_price pos = Fin e"
      and "\<forall>r \<in> set rs. 0 < req_qty r \<and> (\<exists>p. get_market_price s tok (req_bar r) = Inr (Num p))"
      and "Position.quantity pos + sum_list (map req_qty rs) < double_limit"
  shows "\<exists>s' pos' new e'.
           run s (orders_for tok sd rs) = (Inr (), s')
           \<and> orders s' = orders s @ new \<and> list_all2 (fills s tok sd) rs new
           \<and> trade_log s' = trade_log s
           \<and> map_of (positions s') tok = Some pos'
           \<and> Position.side pos' = Position.side pos
           \<and> Position.quantity pos' = Position.quantity pos + sum_list (map req_qty rs)
           \<and> Position.entry_price pos' = Fin e'
           \<and> e' * of_int (Position.quantity pos')
               = e * of_int (Position.quantity pos)
                 + sum_list (map (\<lambda>ordr. fill_of ordr * of_int (Order.quantity ordr)) new)"
  using assms
proof (induction rs arbitrary: s pos e)
  case Nil
  then show ?case by (simp add: orders_for_def)
next
  case (Cons r rs)
  obtain symb qty d where r: "r = (symb, qty, d)" by (cases r)
  with Cons.prems obtain p where p: "get_market_price s tok d = Inr (Num p)" and q: "0 < qty"
    by auto
  have rest: "0 \<le> sum_list (map req_qty rs)"
    using Cons.prems(5) by (intro sum_list_nonneg) auto
  have held: "\<bar>Position.quantity pos\<bar> < double_limit"
    using Cons.prems(3,6) q rest r by simp
  have total: "\<bar>Position.quantity pos + qty\<bar> < double_limit"
    using Cons.prems(3,6) q rest r by simp
  let ?e1 = "(e * of_int (Position.quantity pos) + fill_of ordr * of_int qty)
               / of_int (Position.quantity pos + qty)"
  from exec_average [OF Cons.prems(1,2) p held total, of symb]
  obtain s1 ordr where
    ex: "exec s (PlaceOrder tok symb sd qty d) = (Inr (), s1)"
    and os1: "orders s1 = orders s @ [ordr]"
    and f0: "fills s tok sd (symb, qty, d) ordr"
    and tl1: "trade_log s1 = trade_log s"
    and pos1: "map_of (positions s1) tok =
                 Some (pos\<lparr>Position.entry_price :=
                          (Position.entry_price pos * Fin (of_int (Position.quantity pos))
                             + Fin (fill_of ordr * of_int qty))
                          / Fin (of_int (Position.quantity pos + qty)),
                        Position.quantity := Position.quantity pos + qty\<rparr>)"
    and fr: "market_data s1 = market_data s" "time_index s1 = time_index s"
      "slippage s1 = slippage s"
    by blast
  let ?pos1 = "pos\<lparr>Position.entry_price :=
                          (Position.entry_price pos * Fin (of_int (Position.quantity pos))
                             + Fin (fill_of ordr * of_int qty))
                          / Fin (of_int (Position.quantity pos + qty)),
                        Position.quantity := Position.quantity pos + qty\<rparr>"
  let ?e1 = "(e * of_int (Position.quantity pos) + fill_of ordr * of_int qty)
               / of_int (Position.quantity pos + qty)"
  have nz: "Position.quantity pos + qty \<noteq> 0" using Cons.prems(3) q by simp
  have ep1: "Position.entry_price ?pos1 = Fin ?e1"
    using Cons.prems(4) nz by simp
  have side1: "Position.side ?pos1 = LONG \<and> sd = ''BUY'' \<or> Position.side ?pos1 = SHORT \<and> sd = ''SELL''"
    using Cons.prems(2) by simp
  have q1: "0 < Position.quantity ?pos1" using Cons.prems(3) q by simp
  have gmp1: "\<forall>r \<in> set rs. 0 < req_qty r \<and> (\<exists>p. get_market_price s1 tok (req_bar r) = Inr (Num p))"
    using Cons.prems(5) get_market_price_cong [OF fr(1,2)] by simp
  have lim1: "Position.quantity ?pos1 + sum_list (map req_qty rs) < double_limit"
    using Cons.prems(6) r by (simp add: add.assoc)
  from Cons.IH [OF pos1 side1 q1 ep1 gmp1 lim1]
  obtain s' pos' new e' where
    ih: "run s1 (orders_for tok sd rs) = (Inr (), s')"
      "orders s' = orders s1 @ new" "list_all2 (fills s1 tok sd) rs new"
      "trade_log s' = trade_log s1"
      "map_of (positions s') tok = Some pos'"
      "Position.side pos' = Position.side ?pos1"
      "Position.quantity pos' = Position.quantity ?pos1 + sum_list (map req_qty rs)"
      "Position.entry_price pos' = Fin e'"
    and ihe: "e' * of_int (Position.quantity pos')
               = ?e1 * of_int (Position.quantity ?pos1)
                 + sum_list (map (\<lambda>ordr. fill_of ordr * of_int (Order.quantity ordr)) new)"
    by blast
  have e1: "?e1 * of_int (Position.quantity ?pos1)
             = e * of_int (Position.quantity pos) + fill_of ordr * of_int qty"
    using nz by simp
  have oq: "Order.quantity ordr = qty" using f0 by (simp add: fills_def)
  have fl: "list_all2 (fills s tok sd) (r # rs) (ordr # new)"
    using ih(3) f0 r fills_cong [OF fr] by simp
  have ee: "e' * of_int (Position.quantity pos')
               = e * of_int (Position.quantity pos)
                 + sum_list (map (\<lambda>ordr. fill_of ordr * of_int (Order.quantity ordr)) (ordr # new))"
    using ihe e1 oq by simp
  show ?case
    apply (intro exI [where x = s'] exI [where x = pos'] exI [where x = "ordr # new"]
                 exI [where x = e'])
    using ih ex r os1 tl1 fl ee
    apply (simp add: orders_for_def)
    done
qed

text \<open>
  C4. Take a token without a position and any non-empty sequence of orders of one side on
  it, with positive quantities, a price available at each, and a total quantity that a
  double can hold (below \<open>2^1024 - 2^970\<close>; beyond it the averaging of line 142 raises).
  Placing them succeeds; the position it leaves is long for buys and short for sells, its
  quantity is the sum of the quantities, and its entry price is the quantity-weighted
  average of the executed prices of the orders, exactly (over the reals).
\<close>

theorem same_direction_fills:
  assumes none: "map_of (positions s) tok = None"
      and ne: "rs \<noteq> []"
      and ok: "\<forall>r \<in> set rs. 0 < req_qty r \<and> (\<exists>p. get_market_price s tok (req_bar r) = Inr (Num p))"
      and sd: "sd = ''BUY'' \<or> sd = ''SELL''"
      and lim: "sum_list (map req_qty rs) < double_limit"
  shows "\<exists>s' pos new.
           run s (orders_for tok sd rs) = (Inr (), s')
           \<and> orders s' = orders s @ new \<and> list_all2 (fills s tok sd) rs new
           \<and> map_of (positions s') tok = Some pos
           \<and> Position.side pos = (if sd = ''BUY'' then LONG else SHORT)
           \<and> Position.quantity pos = sum_list (map req_qty rs)
           \<and> Position.entry_price pos
               = Fin (weighted_average (map (\<lambda>ordr. (fill_of ordr, Order.quantity ordr)) new))"
proof -
  from ne obtain r rs' where rs: "rs = r # rs'" by (cases rs) auto
  obtain symb qty d where r: "r = (symb, qty, d)" by (cases r)
  from ok rs r obtain p where p: "get_market_price s tok d = Inr (Num p)" and q: "0 < qty"
    by auto
  from exec_open [OF none p sd, of symb qty]
  obtain s1 ordr pos0 where
    ex: "exec s (PlaceOrder tok symb sd qty d) = (Inr (), s1)"
    and os1: "orders s1 = orders s @ [ordr]"
    and f0: "fills s tok sd (symb, qty, d) ordr"
    and m1: "map_of (positions s1) tok = Some pos0"
    and pos0: "Position.side pos0 = (if sd = ''BUY'' then LONG else SHORT)"
      "Position.quantity pos0 = qty" "Position.entry_price pos0 = Fin (fill_of ordr)"
    and fr: "market_data s1 = market_data s" "time_index s1 = time_index s"
      "slippage s1 = slippage s"
    by blast
  have side0: "Position.side pos0 = LONG \<and> sd = ''BUY'' \<or> Position.side pos0 = SHORT \<and> sd = ''SELL''"
    using pos0 sd by auto
  have q0: "0 < Position.quantity pos0" using pos0 q by simp
  have ok1: "\<forall>r \<in> set rs'. 0 < req_qty r \<and> (\<exists>p. get_market_price s1 tok (req_bar r) = Inr (Num p))"
    using ok rs get_market_price_cong [OF fr(1,2)] by simp
  have lim1: "Position.quantity pos0 + sum_list (map req_qty rs') < double_limit"
    using lim rs r pos0 by simp
  from average_run [OF m1 side0 q0 pos0(3) ok1 lim1]
  obtain s' pos new e' where
    run1: "run s1 (orders_for tok sd rs') = (Inr (), s')"
    and os: "orders s' = orders s1 @ new"
    and fl: "list_all2 (fills s1 tok sd) rs' new"
    and m: "map_of (positions s') tok = Some pos"
    and sd': "Position.side pos = Position.side pos0"
    and qty': "Position.quantity pos = Position.quantity pos0 + sum_list (map req_qty rs')"
    and epf: "Position.entry_price pos = Fin e'"
    and ep: "e' * of_int (Position.quantity pos)
               = fill_of ordr * of_int (Position.quantity pos0)
                 + sum_list (map (\<lambda>ordr. fill_of ordr * of_int (Order.quantity ordr)) new)"
    by blast
  have fl': "list_all2 (fills s tok sd) rs (ordr # new)"
    using fl f0 rs r fills_cong [OF fr] by simp
  have qs: "map Order.quantity (ordr # new) = map req_qty rs"
    using fl' by (rule fills_quantities)
  have total: "Position.quantity pos = sum_list (map req_qty rs)"
    using qty' pos0 rs r by simp
  have "0 \<le> sum_list (map req_qty rs')"
    using ok rs by (intro sum_list_nonneg) auto
  then have posq: "0 < Position.quantity pos" using qty' q0 by simp
  have oq: "Order.quantity ordr = qty" using f0 by (simp add: fills_def)
  have "sum_list (map Order.quantity (ordr # new)) = Position.quantity pos"
    using qs total by simp
  moreover have "e' * of_int (Position.quantity pos)
      = sum_list (map (\<lambda>ordr. fill_of ordr * of_int (Order.quantity ordr)) (ordr # new))"
    using ep pos0 oq by simp
  ultimately have avg: "e'
      = weighted_average (map (\<lambda>ordr. (fill_of ordr, Order.quantity ordr)) (ordr # new))"
    using posq by (simp add: weighted_average_def comp_def field_simps del: list.map sum_list.Cons)
  show ?thesis
    apply (intro exI [where x = s'] exI [where x = pos] exI [where x = "ordr # new"])
    using run1 ex rs r os os1 fl' m sd' pos0 total avg epf
    apply (simp add: orders_for_def)
    done
qed

theorem same_direction_fills_witness:
  "\<exists>s' pos new.
     run demo (orders_for 1 ''BUY'' [(''A'', 10, 0), (''A'', 30, 1)]) = (Inr (), s')
     \<and> orders s' = orders demo @ new
     \<and> list_all2 (fills demo 1 ''BUY'') [(''A'', 10, 0), (''A'', 30, 1)] new
     \<and> map_of (positions s') 1 = Some pos
     \<and> Position.side pos = LONG
     \<and> Position.quantity pos = 40
     \<and> Position.entry_price pos
         = Fin (weighted_average (map (\<lambda>ordr. (fill_of ordr, Order.quantity ordr)) new))"
proof -
  let ?rs = "[(''A'', 10, 0), (''A'', 30, 1)] :: request list"
  have a: "map_of (positions demo) 1 = None" by (simp add: demo_defs)
  have b: "?rs \<noteq> []" by simp
  have c: "\<forall>r \<in> set ?rs. 0 < req_qty r
             \<and> (\<exists>p. get_market_price demo 1 (req_bar r) = Inr (Num p))"
    by (simp add: demo_defs)
  have d: "''BUY'' = ''BUY'' \<or> ''BUY'' = ''SELL''" by simp
  have e: "sum_list (map req_qty ?rs) < double_limit" by (simp add: double_limit_def)
  show ?thesis
    using same_direction_fills [OF a b c d e] by simp
qed

text \<open>
  A total of zero: buying 5 on top of a long position of quantity -5 divides by zero. The
  order is filled, and the position stays in the mapping with quantity zero and an infinite
  entry price (the products sum to 50).
\<close>

lemma zero_total_entry_price:
  "fst flat_long = Inr ()
   \<and> map (Position.quantity \<circ> snd) (positions (snd flat_long)) = [0]
   \<and> map (Position.entry_price \<circ> snd) (positions (snd flat_long)) = [PosInf]"
  by (simp add: flat_long_def demo_defs)

subsection \<open>Squaring off\<close>





subsection \<open>Valuation and the loss limit\<close>

lemma update_pnl_self: "snd (update_pnl pos p) = pos"
  by (simp add: update_pnl_def)

lemma mark_to_market_loop_state: "snd (mark_to_market_loop s toks d acc) = s"
proof (induction toks arbitrary: acc)
  case Nil
  show ?case by simp
next
  case (Cons tok toks)
  show ?case
  proof (cases "map_of (positions s) tok")
    case None
    then show ?thesis by simp
  next
    case (Some pos)
    then have same: "\<And>p. s\<lparr>positions := AList.update tok (snd (update_pnl pos p)) (positions s)\<rparr> = s"
      by (simp add: update_pnl_self update_triv)
    show ?thesis
      using Some Cons.IH same
      by (auto split: sum.splits npfloat.splits prod.splits simp: update_pnl_def update_triv)
  qed
qed

lemma total_equity_state: "snd (total_equity s d) = s"
  using mark_to_market_loop_state [of s "map fst (positions s)" d 0]
  by (auto simp: mark_to_market_def total_equity_def Let_def split: prod.splits sum.splits)

text \<open>
  C10. \<^verbatim>\<open>mark_to_market\<close> and \<^verbatim>\<open>total_equity\<close> leave the engine exactly as it was,
  whether they return a value or raise: cash, every position with its quantity, entry price
  and realised PnL, the order list and the trade log. \<^verbatim>\<open>update_pnl\<close> changes nothing in
  the position it is called on.
\<close>

theorem valuation_read_only:
  "snd (mark_to_market s d) = s \<and> snd (total_equity s d) = s \<and> snd (update_pnl pos p) = pos"
  using mark_to_market_loop_state [of s "map fst (positions s)" d 0]
  by (auto simp: mark_to_market_def total_equity_def update_pnl_self Let_def split: prod.splits sum.splits)

text \<open>
  C6. Without a loss limit \<^verbatim>\<open>check_max_loss\<close> returns False, in every state. With a limit
  it returns whether starting cash minus total equity is at least the limit (and raises
  what \<^verbatim>\<open>total_equity\<close> raises). It leaves the engine as it was.
\<close>

theorem check_max_loss_spec:
  "(max_daily_loss s = None \<longrightarrow> check_max_loss s d = (Inr False, s))
   \<and> (\<forall>limit. max_daily_loss s = Some limit \<longrightarrow>
          fst (check_max_loss s d) =
            (case fst (total_equity s d) of
               Inl e \<Rightarrow> Inl e
             | Inr equity \<Rightarrow> Inr (Fin (starting_cash s) - equity \<ge> Fin limit)))
   \<and> snd (check_max_loss s d) = s"
  using total_equity_state [of s d]
  by (cases "total_equity s d") (auto simp: check_max_loss_def Let_def split: option.splits sum.splits)

theorem check_max_loss_spec_witness:
  "max_daily_loss demo = None \<and> check_max_loss demo 0 = (Inr False, demo)
   \<and> max_daily_loss with_limit = Some 500
   \<and> fst (total_equity with_limit 1) = Inr (Fin 999100)
   \<and> starting_cash with_limit = 1000000
   \<and> fst (check_max_loss with_limit 1) = Inr True
   \<and> snd (check_max_loss with_limit 1) = with_limit"
proof -
  have a: "max_daily_loss demo = None" by (simp add: demo_defs)
  have b: "max_daily_loss with_limit = Some 500"
    by (simp add: with_limit_def place_order_frame init_def set_time_index_def)
  have c: "fst (total_equity with_limit 1) = Inr (Fin 999100)"
    by (simp add: with_limit_def demo_data_def engine_defs) (simp add: valuation_defs demo_data_def engine_defs)
  have d: "starting_cash with_limit = 1000000"
    by (simp add: with_limit_def place_order_frame init_def set_time_index_def)
  show ?thesis
    using a b c d check_max_loss_spec [of demo 0] check_max_loss_spec [of with_limit 1]
    by (simp add: minus_float64_def)
qed

subsection \<open>Position quantities\<close>

lemma reconcile_positive:
  assumes inv: "positive_positions s"
      and sd: "sd = ''BUY'' \<or> sd = ''SELL''"
      and q: "0 < qty"
      and sz: "\<And>pos. map_of (positions s) tok = Some pos \<Longrightarrow> sd = closing_side pos
                 \<Longrightarrow> qty \<le> Position.quantity pos"
      and res: "reconcile s tok symb sd qty f ts = Inr s'"
  shows "positive_positions s'"
proof (cases "map_of (positions s) tok")
  case None
  from reconcile_open [OF None, of sd qty f symb ts] res obtain pos where
    "Position.quantity pos = qty" "s' = s\<lparr>positions := positions s @ [(tok, pos)]\<rparr>"
    by auto
  with inv q show ?thesis by (auto simp: positive_positions_def)
next
  case (Some pos)
  then have "(tok, pos) \<in> set (positions s)" by (rule map_of_SomeD)
  with inv have qp: "0 < Position.quantity pos" by (auto simp: positive_positions_def)
  have al: "\<forall>tp \<in> set (positions s). 0 < Position.quantity (snd tp)"
    using inv by (simp add: positive_positions_def)
  show ?thesis
  proof (cases "sd = closing_side pos")
    case True
    with sz Some have le: "qty \<le> Position.quantity pos" by blast
    from True have opp: "Position.side pos = LONG \<and> sd = ''SELL'' \<or> Position.side pos = SHORT \<and> sd = ''BUY''"
      using closing_side_opposite [of pos] by simp
    show ?thesis
    proof (cases "qty = Position.quantity pos")
      case True
      from reconcile_close [OF Some opp True, of symb f ts] res positive_delete [OF al, of tok]
      show ?thesis
        by (auto simp: positive_positions_def)
    next
      case False
      let ?pos1 = "pos\<lparr>Position.quantity := Position.quantity pos - qty,
               realised_pnl := realised_pnl pos + reduction_pnl pos f qty\<rparr>"
      from False le have "0 < Position.quantity ?pos1" by simp
      from reconcile_reduce [OF Some opp False, of symb f ts] res
        positive_update [OF al this, of tok]
      show ?thesis
        by (auto simp: positive_positions_def)
    qed
  next
    case False
    with sd have same: "Position.side pos = LONG \<and> sd = ''BUY'' \<or> Position.side pos = SHORT \<and> sd = ''SELL''"
      by (cases "Position.side pos") (auto simp: closing_side_def)
    with Some res have "average_in s tok pos qty f = Inr s'"
      by (auto simp: reconcile_def)
    from average_in_result [OF this] obtain pos1 where
      p1: "Position.quantity pos1 = Position.quantity pos + qty"
      and s': "s' = s\<lparr>positions := AList.update tok pos1 (positions s)\<rparr>"
      by blast
    from qp q p1 have "0 < Position.quantity pos1" by simp
    from positive_update [OF al this, of tok] s' show ?thesis
      by (simp add: positive_positions_def)
  qed
qed

lemma place_order_positive:
  assumes inv: "positive_positions s" and sz: "sized_order s tok side0 qty"
  shows "positive_positions (snd (place_order s tok symb side0 qty d))"
proof (cases "upper side0 = ''BUY'' \<or> upper side0 = ''SELL''")
  case False
  then have "place_order s tok symb side0 qty d = (Inl ValueError_side, s)"
    by (simp add: place_order_def)
  with inv show ?thesis by simp
next
  case sd: True
  show ?thesis
  proof (cases "get_market_price s tok d")
    case (Inl e)
    then have "snd (place_order s tok symb side0 qty d) = s"
      by (simp add: place_order_def Let_def)
    with inv show ?thesis by simp
  next
    case gmp: (Inr x)
    show ?thesis
    proof (cases x)
      case NaN
      with gmp have "snd (place_order s tok symb side0 qty d) = s"
        by (simp add: place_order_def Let_def)
      with inv show ?thesis by simp
    next
      case (Num p)
      with gmp have g: "get_market_price s tok d = Inr (Num p)" by simp
      from place_order_success [OF g sd, where qty = qty and symb = symb]
      obtain ts ordr s2 where
        s2eq: "s2 = s\<lparr>cash := (if upper side0 = ''BUY''
                                  then cash s - executed s (upper side0) p * of_int qty
                                  else cash s + executed s (upper side0) p * of_int qty),
                        order_id_counter := order_id_counter s + 1,
                        orders := orders s @ [ordr]\<rparr>"
        and po: "place_order s tok symb (upper side0) qty d =
               (case reconcile s2 tok symb (upper side0) qty (executed s (upper side0) p) ts of
                  Inl e \<Rightarrow> (Inl e, s2)
                | Inr s3 \<Rightarrow> (Inr ordr, s3))"
        by blast
      have s2: "positions s2 = positions s" by (simp add: s2eq)
      have inv2: "positive_positions s2" using inv s2 by (simp add: positive_positions_def)
      show ?thesis
      proof (cases "reconcile s2 tok symb (upper side0) qty (executed s (upper side0) p) ts")
        case (Inl e)
        with po place_order_upper [OF sd, of s tok symb qty d] inv2 show ?thesis by simp
      next
        case (Inr s3)
        have "positive_positions s3"
        proof (rule reconcile_positive [OF inv2 sd _ _ Inr])
          show "0 < qty" using sz by (simp add: sized_order_def)
        next
          fix pos assume "map_of (positions s2) tok = Some pos" "upper side0 = closing_side pos"
          then show "qty \<le> Position.quantity pos"
            using sz s2 by (simp add: sized_order_def)
        qed
        with Inr po place_order_upper [OF sd, of s tok symb qty d] show ?thesis by simp
      qed
    qed
  qed
qed

lemma square_off_loop_positive:
  "positive_positions s \<Longrightarrow> positive_positions (snd (square_off_loop s toks d))"
proof (induction toks arbitrary: s)
  case Nil
  then show ?case by simp
next
  case (Cons tok toks)
  show ?case
  proof (cases "map_of (positions s) tok")
    case None
    with Cons.prems show ?thesis by simp
  next
    case (Some pos)
    then have "(tok, pos) \<in> set (positions s)" by (rule map_of_SomeD)
    with Cons.prems have qp: "0 < Position.quantity pos" by (auto simp: positive_positions_def)
    have sz: "sized_order s tok (closing_side pos) (Position.quantity pos)"
      using qp Some by (simp add: sized_order_def)
    have inv1: "positive_positions (snd (place_order s tok (Position.symbol pos) (closing_side pos) (Position.quantity pos) d))"
      by (rule place_order_positive [OF Cons.prems sz])
    show ?thesis
    proof (cases "place_order s tok (Position.symbol pos) (closing_side pos) (Position.quantity pos) d")
      case (Pair res s1)
      with inv1 have i1: "positive_positions s1" by simp
      show ?thesis
      proof (cases res)
        case (Inl e)
        with Pair Some i1 show ?thesis by (simp add: closing_side_def)
      next
        case (Inr ordr)
        with Pair Some Cons.IH [OF i1] show ?thesis by (simp add: closing_side_def)
      qed
    qed
  qed
qed

lemma exec_positive:
  "positive_positions s \<Longrightarrow> sized_call s c \<Longrightarrow> positive_positions (snd (exec s c))"
proof (cases c)
  case (PlaceOrder tok symb side0 qty d)
  assume "positive_positions s" "sized_call s c"
  with PlaceOrder place_order_positive [of s tok side0 qty symb d] show ?thesis
    by (auto split: prod.splits sum.splits)
next
  case (SquareOffAll d)
  assume "positive_positions s"
  with SquareOffAll show ?thesis by (simp add: square_off_all_def square_off_loop_positive)
next
  case (SetTimeIndex idx)
  assume "positive_positions s"
  with SetTimeIndex show ?thesis by (simp add: set_time_index_def positive_positions_def)
qed

lemma run_positive:
  "positive_positions s \<Longrightarrow> sized_calls s cs \<Longrightarrow> positive_positions (snd (run s cs))"
proof (induction cs arbitrary: s)
  case Nil
  then show ?case by simp
next
  case (Cons c cs)
  from Cons.prems have i1: "positive_positions (snd (exec s c))"
    by (simp add: exec_positive)
  show ?case
  proof (cases "exec s c")
    case (Pair res s1)
    with i1 have "positive_positions s1" by simp
    with Pair Cons show ?thesis by (cases res) auto
  qed
qed

text \<open>
  C2 (amended). In every state reached from a fresh engine by a sized session (calls of
  \<^verbatim>\<open>set_time_index\<close>, \<^verbatim>\<open>square_off_all\<close> and \<^verbatim>\<open>place_order\<close>, each order with a positive
  quantity that does not exceed the position it goes against), every position in the
  open-position mapping has a strictly positive quantity.
\<close>

theorem sized_sessions_positive:
  assumes "sized_calls (init md sc sl mdl) cs"
  shows "\<forall>tok pos. map_of (positions (snd (run (init md sc sl mdl) cs))) tok = Some pos
           \<longrightarrow> 0 < Position.quantity pos"
proof -
  have "positive_positions (init md sc sl mdl)"
    by (simp add: positive_positions_def init_def)
  from run_positive [OF this assms] show ?thesis
    by (force simp: positive_positions_def dest: map_of_SomeD)
qed

theorem sized_sessions_positive_witness:
  "sized_calls (init demo_data 1000000 0 None)
      [SetTimeIndex [0, 1], PlaceOrder 1 ''A'' ''BUY'' 10 0, PlaceOrder 1 ''A'' ''SELL'' 4 1]
   \<and> map fst (positions (snd (run (init demo_data 1000000 0 None)
         [SetTimeIndex [0, 1], PlaceOrder 1 ''A'' ''BUY'' 10 0,
          PlaceOrder 1 ''A'' ''SELL'' 4 1]))) = [1]
   \<and> 0 < Position.quantity (the (map_of (positions (snd (run (init demo_data 1000000 0 None)
         [SetTimeIndex [0, 1], PlaceOrder 1 ''A'' ''BUY'' 10 0,
          PlaceOrder 1 ''A'' ''SELL'' 4 1]))) 1))"
proof -
  let ?cs = "[SetTimeIndex [0, 1], PlaceOrder 1 ''A'' ''BUY'' 10 0, PlaceOrder 1 ''A'' ''SELL'' 4 1]"
  let ?s = "snd (run (init demo_data 1000000 0 None) ?cs)"
  have a: "sized_calls (init demo_data 1000000 0 None) ?cs"
    by (simp add: sized_order_def closing_side_def demo_data_def engine_defs)
  have b: "map fst (positions ?s) = [1]"
    by (simp add: demo_data_def engine_defs)
  then obtain pos where c: "map_of (positions ?s) 1 = Some pos"
    by (cases "positions ?s") auto
  with sized_sessions_positive [OF a] have "0 < Position.quantity pos"
    by blast
  with a b c show ?thesis by simp
qed

text \<open>
  The claim as stated, for every reachable state, fails: selling 15 against a long position
  of 10 leaves the position in the mapping, long, with quantity -5.
\<close>

theorem oversold_position_negative:
  "fst oversold = Inr ()
   \<and> map fst (positions (snd oversold)) = [1]
   \<and> map (Position.side \<circ> snd) (positions (snd oversold)) = [LONG]
   \<and> map (Position.quantity \<circ> snd) (positions (snd oversold)) = [- 5]"
  by (simp add: oversold_def demo_defs)

end
